theory Spec2Isabelle
  imports Main "HOL-Library.Monad_Syntax"
begin

section \<open>Go strings as byte lists\<close>

text \<open>
  A Go \<open>string\<close> is a sequence of bytes; \<^typ>\<open>string\<close> is a list of 8-bit characters, so
  a Go string is modelled byte for byte. Text outside ASCII (the Korean section headers of
  the prompts, the bullet U+2022) is written as its UTF-8 bytes.

  A Go slice is \<open>nil\<close> or holds elements: \<open>None\<close> is the nil slice, \<open>Some xs\<close> a non-nil
  slice with the elements \<open>xs\<close>. \<open>append\<close> on either gives a non-nil slice.
\<close>

type_synonym 'a slice = "'a list option"

definition elems :: "'a slice \<Rightarrow> 'a list" where
  "elems s = (case s of None \<Rightarrow> [] | Some xs \<Rightarrow> xs)"

definition append_slice :: "'a slice \<Rightarrow> 'a \<Rightarrow> 'a slice" where
  "append_slice s x = Some (elems s @ [x])"

text \<open>\<open>strings.HasPrefix(s, prefix)\<close> and \<open>strings.HasSuffix(s, suffix)\<close>.\<close>

fun HasPrefix :: "string \<Rightarrow> string \<Rightarrow> bool" where
  "HasPrefix s [] = True"
| "HasPrefix [] (p # ps) = False"
| "HasPrefix (c # cs) (p # ps) = (c = p \<and> HasPrefix cs ps)"

definition HasSuffix :: "string \<Rightarrow> string \<Rightarrow> bool" where
  "HasSuffix s suffix = HasPrefix (rev s) (rev suffix)"

text \<open>\<open>strings.TrimPrefix\<close> and \<open>strings.TrimSuffix\<close>: the affix is removed once, if present.\<close>

definition TrimPrefix :: "string \<Rightarrow> string \<Rightarrow> string" where
  "TrimPrefix s p = (if HasPrefix s p then drop (length p) s else s)"

definition TrimSuffix :: "string \<Rightarrow> string \<Rightarrow> string" where
  "TrimSuffix s p = (if HasSuffix s p then take (length s - length p) s else s)"

text \<open>\<open>strings.Contains(s, substr)\<close>.\<close>

fun Contains :: "string \<Rightarrow> string \<Rightarrow> bool" where
  "Contains [] sub = (sub = [])"
| "Contains (c # cs) sub = (HasPrefix (c # cs) sub \<or> Contains cs sub)"

text \<open>
  \<open>strings.Split(s, sep)\<close> for a separator of one byte (every separator of the source is:
  newline, comma, pipe, blank): one more field than there are separators.
  \<open>split_from\<close> reads the bytes from the left; \<open>cur\<close> holds the field being read, reversed.
\<close>

fun split_from :: "char \<Rightarrow> string \<Rightarrow> string \<Rightarrow> string list" where
  "split_from sep cur [] = [rev cur]"
| "split_from sep cur (c # cs) =
     (if c = sep then rev cur # split_from sep [] cs else split_from sep (c # cur) cs)"

definition Split :: "string \<Rightarrow> char \<Rightarrow> string list" where
  "Split s sep = split_from sep [] s"

text \<open>\<open>strings.Join(elems, sep)\<close>.\<close>

fun Join :: "string list \<Rightarrow> string \<Rightarrow> string" where
  "Join [] sep = []"
| "Join [x] sep = x"
| "Join (x # y # ys) sep = x @ sep @ Join (y # ys) sep"

text \<open>\<open>strings.Replace(s, old, new, 1)\<close> for a non-empty \<open>old\<close>: the first occurrence only.\<close>

fun Replace1 :: "string \<Rightarrow> string \<Rightarrow> string \<Rightarrow> string" where
  "Replace1 [] old new = (if old = [] then new else [])"
| "Replace1 (c # cs) old new =
     (if HasPrefix (c # cs) old then new @ drop (length old) (c # cs)
      else c # Replace1 cs old new)"

text \<open>
  The white space of \<open>unicode.IsSpace\<close> (and of \<open>fmt\<close>'s scanner), each rune as its UTF-8
  bytes: U+0009..U+000D, U+0020, U+0085, U+00A0, U+1680, U+2000..U+200A, U+2028, U+2029,
  U+202F, U+205F, U+3000. A byte sequence of this list at the start (the end) of a string
  is exactly a white-space rune decoded there: none of these first bytes is a continuation
  byte.
\<close>

definition space_runes :: "string list" where
  "space_runes =
     [[CHR 0x09], [CHR 0x0A], [CHR 0x0B], [CHR 0x0C], [CHR 0x0D], [CHR 0x20],
      [CHR 0xC2, CHR 0x85], [CHR 0xC2, CHR 0xA0],
      [CHR 0xE1, CHR 0x9A, CHR 0x80],
      [CHR 0xE2, CHR 0x80, CHR 0x80], [CHR 0xE2, CHR 0x80, CHR 0x81],
      [CHR 0xE2, CHR 0x80, CHR 0x82], [CHR 0xE2, CHR 0x80, CHR 0x83],
      [CHR 0xE2, CHR 0x80, CHR 0x84], [CHR 0xE2, CHR 0x80, CHR 0x85],
      [CHR 0xE2, CHR 0x80, CHR 0x86], [CHR 0xE2, CHR 0x80, CHR 0x87],
      [CHR 0xE2, CHR 0x80, CHR 0x88], [CHR 0xE2, CHR 0x80, CHR 0x89],
      [CHR 0xE2, CHR 0x80, CHR 0x8A],
      [CHR 0xE2, CHR 0x80, CHR 0xA8], [CHR 0xE2, CHR 0x80, CHR 0xA9],
      [CHR 0xE2, CHR 0x80, CHR 0xAF], [CHR 0xE2, CHR 0x81, CHR 0x9F],
      [CHR 0xE3, CHR 0x80, CHR 0x80]]"

definition lead_space :: "string \<Rightarrow> string option" where
  "lead_space s = find (HasPrefix s) space_runes"

definition trail_space :: "string \<Rightarrow> string option" where
  "trail_space s = find (HasSuffix s) space_runes"

lemma HasPrefix_length: "HasPrefix s p \<Longrightarrow> length p \<le> length s"
  by (induction s p rule: HasPrefix.induct) auto

lemma space_runes_nonempty: "w \<in> set space_runes \<Longrightarrow> 0 < length w"
  by (auto simp: space_runes_def)

lemma lead_space_shorter:
  assumes "lead_space s = Some w"
  shows "length (drop (length w) s) < length s"
proof -
  from assms have "w \<in> set space_runes" and "HasPrefix s w"
    by (auto simp: lead_space_def find_Some_iff)
  then have "0 < length w" and "length w \<le> length s"
    by (auto dest: space_runes_nonempty HasPrefix_length)
  then show ?thesis by (cases w) auto
qed

lemma trail_space_shorter:
  assumes "trail_space s = Some w"
  shows "length (take (length s - length w) s) < length s"
proof -
  from assms have "w \<in> set space_runes" and "HasPrefix (rev s) (rev w)"
    by (auto simp: trail_space_def HasSuffix_def find_Some_iff)
  then have "0 < length w" and "length w \<le> length s"
    by (auto dest: space_runes_nonempty HasPrefix_length)
  then show ?thesis by (cases w) auto
qed

text \<open>\<open>strings.TrimSpace\<close>: white-space runes are removed from the left, then from the right.\<close>

function TrimLeftSpace :: "string \<Rightarrow> string" where
  "TrimLeftSpace s =
     (case lead_space s of None \<Rightarrow> s | Some w \<Rightarrow> TrimLeftSpace (drop (length w) s))"
  by pat_completeness auto
termination
  by (relation "measure length") (auto dest: lead_space_shorter)

function TrimRightSpace :: "string \<Rightarrow> string" where
  "TrimRightSpace s =
     (case trail_space s of None \<Rightarrow> s
      | Some w \<Rightarrow> TrimRightSpace (take (length s - length w) s))"
  by pat_completeness auto
termination
  by (relation "measure length") (auto dest: trail_space_shorter)

declare TrimLeftSpace.simps [simp del] TrimRightSpace.simps [simp del]

definition TrimSpace :: "string \<Rightarrow> string" where
  "TrimSpace s = TrimRightSpace (TrimLeftSpace s)"

text \<open>
  \<open>strings.ToLower\<close> on the ASCII letters. Go also maps the letters outside ASCII, to
  letters outside ASCII again but for U+0130 and U+212A, which give \<open>i\<close> and \<open>k\<close>: the
  places where \<open>t\<close>, \<open>r\<close>, \<open>u\<close>, \<open>e\<close> stand in the result, all the source asks of it
  (whether \<open>true\<close> occurs), are those of Go's result.
\<close>

definition is_upper :: "char \<Rightarrow> bool" where
  "is_upper c = (65 \<le> (of_char c :: nat) \<and> (of_char c :: nat) \<le> 90)"

definition is_lower :: "char \<Rightarrow> bool" where
  "is_lower c = (97 \<le> (of_char c :: nat) \<and> (of_char c :: nat) \<le> 122)"

definition is_digit :: "char \<Rightarrow> bool" where
  "is_digit c = (48 \<le> (of_char c :: nat) \<and> (of_char c :: nat) \<le> 57)"

definition lower_char :: "char \<Rightarrow> char" where
  "lower_char c = (if is_upper c then char_of (of_char c + 32 :: nat) else c)"

definition upper_char :: "char \<Rightarrow> char" where
  "upper_char c = (if is_lower c then char_of (of_char c - 32 :: nat) else c)"

definition ToLower :: "string \<Rightarrow> string" where
  "ToLower s = map lower_char s"


section \<open>The response extractor\<close>

subsection \<open>The headers of the prompts\<close>

text \<open>
  The section headers are Korean text followed by a colon; each constant is the UTF-8
  encoding of the string literal of the source, named after what the header announces.
\<close>

definition hdr_explain :: string where \<comment> \<open>explanation header, U+C124 U+BA85 and a colon\<close>
  "hdr_explain = [CHR 0xEC, CHR 0x84, CHR 0xA4, CHR 0xEB, CHR 0xAA, CHR 0x85, CHR 0x3A]"

definition hdr_tips :: string where \<comment> \<open>optimisation tips header\<close>
  "hdr_tips = [CHR 0xEC, CHR 0xB5, CHR 0x9C, CHR 0xEC, CHR 0xA0, CHR 0x81, CHR 0xED,
     CHR 0x99, CHR 0x94, CHR 0x20, CHR 0xED, CHR 0x8C, CHR 0x81, CHR 0x3A]"

definition hdr_valid :: string where \<comment> \<open>validity header\<close>
  "hdr_valid = [CHR 0xEC, CHR 0x9C, CHR 0xA0, CHR 0xED, CHR 0x9A, CHR 0xA8, CHR 0xEC,
     CHR 0x84, CHR 0xB1, CHR 0x3A]"

definition kw_valid :: string where \<comment> \<open>the word for valid, the first two syllables of the header\<close>
  "kw_valid = [CHR 0xEC, CHR 0x9C, CHR 0xA0, CHR 0xED, CHR 0x9A, CHR 0xA8]"

definition hdr_score :: string where \<comment> \<open>score header\<close>
  "hdr_score = [CHR 0xEC, CHR 0xA0, CHR 0x90, CHR 0xEC, CHR 0x88, CHR 0x98, CHR 0x3A]"

definition kw_point :: string where \<comment> \<open>the unit after a score, one syllable\<close>
  "kw_point = [CHR 0xEC, CHR 0xA0, CHR 0x90]"

definition hdr_issues :: string where \<comment> \<open>issues header\<close>
  "hdr_issues = [CHR 0xEB, CHR 0xAC, CHR 0xB8, CHR 0xEC, CHR 0xA0, CHR 0x9C, CHR 0xEC,
     CHR 0xA0, CHR 0x90, CHR 0x3A]"

definition hdr_indexes :: string where \<comment> \<open>index usage header\<close>
  "hdr_indexes = [CHR 0xEC, CHR 0x9D, CHR 0xB8, CHR 0xEB, CHR 0x8D, CHR 0xB1, CHR 0xEC,
     CHR 0x8A, CHR 0xA4, CHR 0x20, CHR 0xED, CHR 0x99, CHR 0x9C, CHR 0xEC, CHR 0x9A,
     CHR 0xA9, CHR 0x3A]"

definition hdr_optimized :: string where \<comment> \<open>optimised query header\<close>
  "hdr_optimized = [CHR 0xEC, CHR 0xB5, CHR 0x9C, CHR 0xEC, CHR 0xA0, CHR 0x81, CHR 0xED,
     CHR 0x99, CHR 0x94, CHR 0xEB, CHR 0x90, CHR 0x9C, CHR 0x20, CHR 0xEC, CHR 0xBF,
     CHR 0xBC, CHR 0xEB, CHR 0xA6, CHR 0xAC, CHR 0x3A]"

definition hdr_plan :: string where \<comment> \<open>execution plan header\<close>
  "hdr_plan = [CHR 0xEC, CHR 0x8B, CHR 0xA4, CHR 0xED, CHR 0x96, CHR 0x89, CHR 0x20,
     CHR 0xEA, CHR 0xB3, CHR 0x84, CHR 0xED, CHR 0x9A, CHR 0x8D, CHR 0x3A]"

definition hdr_time :: string where \<comment> \<open>estimated time header\<close>
  "hdr_time = [CHR 0xEC, CHR 0x98, CHR 0x88, CHR 0xEC, CHR 0x83, CHR 0x81, CHR 0x20,
     CHR 0xEC, CHR 0x8B, CHR 0x9C, CHR 0xEA, CHR 0xB0, CHR 0x84, CHR 0x3A]"

definition hdr_suggestions :: string where \<comment> \<open>improvement suggestions header\<close>
  "hdr_suggestions = [CHR 0xEA, CHR 0xB0, CHR 0x9C, CHR 0xEC, CHR 0x84, CHR 0xA0, CHR 0x20,
     CHR 0xEC, CHR 0xA0, CHR 0x9C, CHR 0xEC, CHR 0x95, CHR 0x88, CHR 0x3A]"

definition kw_none :: string where \<comment> \<open>the placeholder for no index\<close>
  "kw_none = [CHR 0xEC, CHR 0x97, CHR 0x86, CHR 0xEC, CHR 0x9D, CHR 0x8C]"

definition kw_original_best :: string where \<comment> \<open>the phrase: the original query is the best\<close>
  "kw_original_best = [CHR 0xEC, CHR 0x9B, CHR 0x90, CHR 0xEB, CHR 0xB3, CHR 0xB8, CHR 0x20,
     CHR 0xEC, CHR 0xBF, CHR 0xBC, CHR 0xEB, CHR 0xA6, CHR 0xAC, CHR 0xEA, CHR 0xB0,
     CHR 0x80, CHR 0x20, CHR 0xEC, CHR 0xB5, CHR 0x9C, CHR 0xEC, CHR 0xA0, CHR 0x81]"

definition lbl_location :: string where \<comment> \<open>the label of an issue's location field\<close>
  "lbl_location = [CHR 0xEC, CHR 0x9C, CHR 0x84, CHR 0xEC, CHR 0xB9, CHR 0x98, CHR 0x3A]"

definition lbl_suggestion :: string where \<comment> \<open>the label of an issue's suggestion field\<close>
  "lbl_suggestion = [CHR 0xED, CHR 0x95, CHR 0xB4, CHR 0xEA, CHR 0xB2, CHR 0xB0, CHR 0x3A]"

definition bullet :: string where \<comment> \<open>U+2022\<close>
  "bullet = [CHR 0xE2, CHR 0x80, CHR 0xA2]"

definition fence_sql :: string where
  "fence_sql = [CHR 0x60, CHR 0x60, CHR 0x60] @ ''sql''"

definition fence :: string where
  "fence = [CHR 0x60, CHR 0x60, CHR 0x60]"

subsection \<open>parseQueryResponse\<close>

record qr_state =
  cur_section :: string
  queryLines :: "string list"
  explainLines :: "string list"
  tips :: "string slice"

text \<open>The body of the loop over the lines.\<close>

definition qr_step :: "qr_state \<Rightarrow> string \<Rightarrow> qr_state" where
  "qr_step st line =
     (let trimmed = TrimSpace line in
      if HasPrefix trimmed ''SQL:'' then st\<lparr>cur_section := ''sql''\<rparr>
      else if HasPrefix trimmed hdr_explain then st\<lparr>cur_section := ''explain''\<rparr>
      else if HasPrefix trimmed hdr_tips then st\<lparr>cur_section := ''tips''\<rparr>
      else if cur_section st = ''sql'' then
        (if trimmed \<noteq> [] \<and> trimmed \<noteq> fence_sql \<and> trimmed \<noteq> fence
         then st\<lparr>queryLines := queryLines st @ [line]\<rparr> else st)
      else if cur_section st = ''explain'' then
        (if trimmed \<noteq> [] then st\<lparr>explainLines := explainLines st @ [trimmed]\<rparr> else st)
      else if cur_section st = ''tips'' then
        (if HasPrefix trimmed ''-'' \<or> HasPrefix trimmed bullet
         then st\<lparr>tips := append_slice (tips st)
                (TrimSpace (TrimPrefix (TrimPrefix trimmed ''-'') bullet))\<rparr>
         else st)
      else st)"

definition parseQueryResponse :: "string \<Rightarrow> string \<times> string \<times> string slice" where
  "parseQueryResponse response =
     (let lines = Split response (CHR 0x0A);
          st = foldl qr_step
                 \<lparr>cur_section = [], queryLines = [], explainLines = [], tips = Some []\<rparr> lines;
          query = TrimSpace (Join (queryLines st) [CHR 0x0A]);
          explanation = Join (explainLines st) '' '';
          query = TrimPrefix query fence_sql;
          query = TrimPrefix query fence;
          query = TrimSuffix query fence;
          query = TrimSpace query
      in (query, explanation, tips st))"

subsection \<open>parseIssue\<close>

record Issue =
  Issue_Type :: string
  Issue_Message :: string
  Issue_Location :: string
  Issue_Suggestion :: string

definition parseIssue :: "string \<Rightarrow> Issue" where
  "parseIssue line0 =
     (let line = TrimSpace (TrimPrefix (TrimPrefix line0 ''-'') bullet);
          ty = (if Contains line ''[error]'' then ''error''
                else if Contains line ''[warning]'' then ''warning''
                else ''info'');
          line = (if Contains line ''[error]'' then Replace1 line ''[error]'' []
                  else if Contains line ''[warning]'' then Replace1 line ''[warning]'' []
                  else if Contains line ''[info]'' then Replace1 line ''[info]'' []
                  else line);
          parts = Split line (CHR ''|'')
      in \<lparr>Issue_Type = ty,
          Issue_Message = TrimSpace (parts ! 0),
          Issue_Location =
            (if 2 \<le> length parts then TrimSpace (TrimPrefix (parts ! 1) lbl_location) else []),
          Issue_Suggestion =
            (if 3 \<le> length parts then TrimSpace (TrimPrefix (parts ! 2) lbl_suggestion)
             else [])\<rparr>)"


subsection \<open>Scanning the score\<close>

text \<open>
  \<open>fmt.Sscanf(scoreStr, "%d", &score)\<close>: the scanner skips white space (a newline there is
  an error), takes one optional sign, then the decimal digits that follow, at least one,
  and converts them; what follows the digits is left unread. It fails on the end of the
  text, on a missing digit and on a value outside the 64-bit integers, and then \<open>score\<close>
  keeps its zero value; the call's error is not looked at by the source. \<open>None\<close> is
  the failed scan.
\<close>

function SkipSpace :: "string \<Rightarrow> string option" where
  "SkipSpace s =
     (if HasPrefix s [CHR 0x0A] then None
      else (case lead_space s of None \<Rightarrow> Some s | Some w \<Rightarrow> SkipSpace (drop (length w) s)))"
  by pat_completeness auto
termination
  by (relation "measure length") (auto dest: lead_space_shorter)

declare SkipSpace.simps [simp del]

definition digit_val :: "char \<Rightarrow> int" where
  "digit_val c = int (of_char c) - 48"

definition Sscanf_d :: "string \<Rightarrow> int option" where
  "Sscanf_d str =
     (case SkipSpace str of
        None \<Rightarrow> None
      | Some s \<Rightarrow>
          (let neg = HasPrefix s ''-'';
               s1 = (if HasPrefix s ''+'' \<or> HasPrefix s ''-'' then drop 1 s else s);
               ds = takeWhile is_digit s1;
               v = foldl (\<lambda>a c. 10 * a + digit_val c) 0 ds;
               i = (if neg then - v else v)
           in if ds = [] then None
              else if - (2 ^ 63) \<le> i \<and> i < 2 ^ 63 then Some i
              else None))"

text \<open>
  The score a line holds: the text after the score header, trimmed, without the unit
  syllable, scanned into a variable that starts at zero.
\<close>

definition scan_score :: "string \<Rightarrow> int" where
  "scan_score trimmed =
     (let scoreStr = TrimSpace (TrimPrefix trimmed hdr_score);
          scoreStr = TrimSuffix scoreStr kw_point
      in (case Sscanf_d scoreStr of None \<Rightarrow> 0 | Some i \<Rightarrow> i))"

subsection \<open>parseValidationResponse\<close>

record QueryValidation =
  IsValid :: bool
  Score :: int
  OriginalQuery :: string
  OptimizedQuery :: string
  Issues :: "Issue slice"
  Suggestions :: "string slice"
  IndexUsage :: "string slice"
  ExecutionPlan :: string
  EstimatedTime :: string
  AIResponseTime :: int

record pv_state =
  validation :: QueryValidation
  pv_section :: string

definition bulleted :: "string \<Rightarrow> bool" where
  "bulleted trimmed = (HasPrefix trimmed ''-'' \<or> HasPrefix trimmed bullet)"

definition unbullet :: "string \<Rightarrow> string" where
  "unbullet trimmed = TrimSpace (TrimPrefix (TrimPrefix trimmed ''-'') bullet)"

text \<open>The body of the loop over the lines: the header tests in the order of the source,
  then the switch on the current section.\<close>

definition pv_step :: "string \<Rightarrow> pv_state \<Rightarrow> string \<Rightarrow> pv_state" where
  "pv_step originalQuery st line =
     (let trimmed = TrimSpace line; v = validation st in
      if HasPrefix trimmed hdr_valid then
        (let val = TrimSpace (TrimPrefix trimmed hdr_valid) in
         st\<lparr>validation :=
              v\<lparr>IsValid := (Contains (ToLower val) ''true'' \<or> Contains val kw_valid)\<rparr>\<rparr>)
      else if HasPrefix trimmed hdr_score then
        (if 0 < scan_score trimmed \<and> scan_score trimmed \<le> 100
         then st\<lparr>validation := v\<lparr>Score := scan_score trimmed\<rparr>\<rparr> else st)
      else if HasPrefix trimmed hdr_issues then st\<lparr>pv_section := ''issues''\<rparr>
      else if HasPrefix trimmed hdr_indexes then st\<lparr>pv_section := ''indexes''\<rparr>
      else if HasPrefix trimmed hdr_optimized then st\<lparr>pv_section := ''optimized''\<rparr>
      else if HasPrefix trimmed hdr_plan then st\<lparr>pv_section := ''plan''\<rparr>
      else if HasPrefix trimmed hdr_time then
        st\<lparr>validation := v\<lparr>EstimatedTime := TrimSpace (TrimPrefix trimmed hdr_time)\<rparr>\<rparr>
      else if HasPrefix trimmed hdr_suggestions then st\<lparr>pv_section := ''suggestions''\<rparr>
      else if pv_section st = ''issues'' then
        (if bulleted trimmed \<and> Issue_Message (parseIssue trimmed) \<noteq> []
         then st\<lparr>validation := v\<lparr>Issues := append_slice (Issues v) (parseIssue trimmed)\<rparr>\<rparr>
         else st)
      else if pv_section st = ''indexes'' then
        (if bulleted trimmed \<and> unbullet trimmed \<noteq> [] \<and> unbullet trimmed \<noteq> kw_none
         then st\<lparr>validation :=
                v\<lparr>IndexUsage := append_slice (IndexUsage v) (unbullet trimmed)\<rparr>\<rparr>
         else st)
      else if pv_section st = ''optimized'' then
        (if trimmed \<noteq> [] \<and> \<not> Contains trimmed kw_original_best
            \<and> trimmed \<noteq> fence_sql \<and> trimmed \<noteq> fence
         then (if OptimizedQuery v = originalQuery
               then st\<lparr>validation := v\<lparr>OptimizedQuery := trimmed\<rparr>\<rparr>
               else st\<lparr>validation :=
                      v\<lparr>OptimizedQuery := OptimizedQuery v @ [CHR 0x0A] @ trimmed\<rparr>\<rparr>)
         else st)
      else if pv_section st = ''plan'' then
        (if trimmed \<noteq> []
         then (if ExecutionPlan v = []
               then st\<lparr>validation := v\<lparr>ExecutionPlan := trimmed\<rparr>\<rparr>
               else st\<lparr>validation :=
                      v\<lparr>ExecutionPlan := ExecutionPlan v @ '' '' @ trimmed\<rparr>\<rparr>)
         else st)
      else if pv_section st = ''suggestions'' then
        (if bulleted trimmed \<and> unbullet trimmed \<noteq> []
         then st\<lparr>validation :=
                v\<lparr>Suggestions := append_slice (Suggestions v) (unbullet trimmed)\<rparr>\<rparr>
         else st)
      else st)"

text \<open>The record the scan starts from: the defaults are set before any line is read.\<close>

definition pv_init :: "string \<Rightarrow> pv_state" where
  "pv_init originalQuery =
     \<lparr>validation =
        \<lparr>IsValid = True, Score = 50, OriginalQuery = originalQuery,
         OptimizedQuery = originalQuery, Issues = Some [], Suggestions = Some [],
         IndexUsage = Some [], ExecutionPlan = [], EstimatedTime = [], AIResponseTime = 0\<rparr>,
      pv_section = []\<rparr>"

text \<open>The clean-up of the optimised query after the loop.\<close>

definition clean_query :: "string \<Rightarrow> string" where
  "clean_query q = TrimSpace (TrimSuffix (TrimPrefix q fence_sql) fence)"

definition parseValidationResponse :: "string \<Rightarrow> string \<Rightarrow> QueryValidation" where
  "parseValidationResponse response originalQuery =
     (let lines = Split response (CHR 0x0A);
          v = validation (foldl (pv_step originalQuery) (pv_init originalQuery) lines);
          oq = clean_query (OptimizedQuery v)
      in v\<lparr>OptimizedQuery := (if oq = [] then originalQuery else oq)\<rparr>)"


section \<open>The schema model\<close>

record Column =
  Column_Name :: string
  Column_Type :: string
  Column_Nullable :: bool
  Column_Default :: string
  Column_Comment :: string
  Column_IsPK :: bool
  Column_IsFK :: bool
  Column_IsUnique :: bool
  Column_IsAutoIncr :: bool

record FK =
  FK_Name :: string
  FK_Column :: string
  FK_RefTable :: string
  FK_RefColumn :: string
  FK_OnDelete :: string
  FK_OnUpdate :: string

record Index =
  Index_Name :: string
  Index_Columns :: "string slice"
  Index_IsUnique :: bool
  Index_Type :: string

record Table =
  Table_Name :: string
  Table_Columns :: "Column slice"
  Table_PrimaryKey :: "string slice"
  Table_ForeignKeys :: "FK slice"
  Table_Indexes :: "Index slice"

text \<open>\<open>DBType\<close> is a string type of the source.\<close>

type_synonym DBType = string

record Schema =
  Schema_Database :: string
  Schema_Tables :: "Table slice"
  Schema_DBType :: DBType

section \<open>Regular expressions\<close>

text \<open>
  The patterns of the source are compiled by Go's \<open>regexp\<close> package: Perl syntax, the
  leftmost match, and among the matches that start there the one a backtracking matcher
  finds first (a greedy operator tries the longer alternative first, a lazy one the
  shorter). The model is that backtracking matcher, on the operators the patterns use;
  repetition is applied to character classes only, as it is in every pattern of the source.

  The matcher reads bytes where Go reads runes. A class that excludes ASCII bytes only
  accepts every byte of a rune outside ASCII, and in the patterns such a class is always
  followed by an ASCII byte, by the end of the text or of the pattern, so the text
  matched is the same. Two runes outside ASCII are matched as themselves: under the flag
  \<open>(?i)\<close> a letter \<open>k\<close> also matches U+212A and a letter \<open>s\<close> also matches U+017F, in a
  literal and in the class \<open>\w\<close>; their first bytes never continue another rune.
\<close>

definition long_s :: string where \<comment> \<open>U+017F\<close>
  "long_s = [CHR 0xC5, CHR 0xBF]"

definition kelvin :: string where \<comment> \<open>U+212A\<close>
  "kelvin = [CHR 0xE2, CHR 0x84, CHR 0xAA]"

definition is_word :: "char \<Rightarrow> bool" where
  "is_word c = (is_digit c \<or> is_upper c \<or> is_lower c \<or> c = CHR ''_'')"

text \<open>
  Character classes: a byte, the letters \<open>k\<close> and \<open>s\<close> under \<open>(?i)\<close>, \<open>\s\<close>, \<open>\w\<close>,
  \<open>\w\<close> under \<open>(?i)\<close>, \<open>[\s\S]\<close>, the dot (no newline), \<open>[...]\<close> and \<open>[^...]\<close> over
  ASCII bytes (any other letter under \<open>(?i)\<close> is the class of its two cases).
  \<open>cls_len c s\<close> is the number of bytes the rune of class \<open>c\<close> at the head of \<open>s\<close> takes,
  and 0 when there is none.
\<close>

datatype cls = Lit char | FoldK | FoldS | Space | Word | WordFold | AnyNL | Dot
  | OneOf string | NoneOf string

fun cls_len :: "cls \<Rightarrow> string \<Rightarrow> nat" where
  "cls_len c [] = 0"
| "cls_len (Lit a) (x # xs) = (if x = a then 1 else 0)"
| "cls_len FoldK (x # xs) =
     (if x = CHR ''K'' \<or> x = CHR ''k'' then 1
      else if HasPrefix (x # xs) kelvin then 3 else 0)"
| "cls_len FoldS (x # xs) =
     (if x = CHR ''S'' \<or> x = CHR ''s'' then 1
      else if HasPrefix (x # xs) long_s then 2 else 0)"
| "cls_len Space (x # xs) =
     (if x \<in> set [CHR 0x09, CHR 0x0A, CHR 0x0C, CHR 0x0D, CHR 0x20] then 1 else 0)"
| "cls_len Word (x # xs) = (if is_word x then 1 else 0)"
| "cls_len WordFold (x # xs) =
     (if is_word x then 1
      else if HasPrefix (x # xs) kelvin then 3
      else if HasPrefix (x # xs) long_s then 2
      else 0)"
| "cls_len AnyNL (x # xs) = 1"
| "cls_len Dot (x # xs) = (if x = CHR 0x0A then 0 else 1)"
| "cls_len (OneOf cs) (x # xs) = (if x \<in> set cs then 1 else 0)"
| "cls_len (NoneOf cs) (x # xs) = (if x \<in> set cs then 0 else 1)"

lemma cls_len_le: "cls_len c s \<le> length s"
  by (induction c s rule: cls_len.induct)
     (auto simp: kelvin_def long_s_def dest!: HasPrefix_length)

lemma cls_len_drop: "0 < cls_len c s \<Longrightarrow> length s - cls_len c s < length s"
  using cls_len_le[of c s] by (cases s) auto

text \<open>
  Expressions: a class, \<open>c*\<close>, \<open>c+\<close>, \<open>c*?\<close>, \<open>r?\<close>, a capturing group with its number,
  \<open>^\<close> and \<open>$\<close> (the start and the end of the text: no pattern sets the multi-line
  flag). A pattern, and the inside of a group or of \<open>r?\<close>, is the list of the expressions
  it concatenates.
\<close>

datatype re = Cls cls | Star cls | Plus cls | LazyStar cls | Opt "re list"
  | Grp nat "re list" | Bol | Eol

type_synonym caps = "(nat \<times> string) list"

text \<open>
  The matcher works through the list of what is still to be matched: expressions, and
  for a group that is open the mark \<open>Close i s0\<close>, where \<open>s0\<close> is the text that was left
  when the group was entered. \<open>None\<close> makes the caller try its next alternative. \<open>n\<close> is
  the length of the whole text, for \<open>^\<close>. The result is the groups and the text left
  after the match.
\<close>

datatype item = R re | Close nat string

fun re_weight :: "re \<Rightarrow> nat" where
  "re_weight (Opt rs) = Suc (Suc (sum_list (map re_weight rs)))"
| "re_weight (Grp i rs) = Suc (Suc (Suc (sum_list (map re_weight rs))))"
| "re_weight r = Suc 0"

fun item_weight :: "item \<Rightarrow> nat" where
  "item_weight (R r) = re_weight r"
| "item_weight (Close i s0) = Suc 0"

lemma weight_map_R: "sum_list (map (item_weight \<circ> R) rs) = sum_list (map re_weight rs)"
  by (induction rs) auto

function rmatch :: "nat \<Rightarrow> item list \<Rightarrow> string \<Rightarrow> caps \<Rightarrow> (caps \<times> string) option" where
  "rmatch n [] s cs = Some (cs, s)"
| "rmatch n (R (Cls c) # k) s cs =
     (if cls_len c s = 0 then None else rmatch n k (drop (cls_len c s) s) cs)"
| "rmatch n (R (Star c) # k) s cs =
     (if cls_len c s = 0 then rmatch n k s cs
      else (case rmatch n (R (Star c) # k) (drop (cls_len c s) s) cs of
              Some m \<Rightarrow> Some m
            | None \<Rightarrow> rmatch n k s cs))"
| "rmatch n (R (Plus c) # k) s cs =
     (if cls_len c s = 0 then None else rmatch n (R (Star c) # k) (drop (cls_len c s) s) cs)"
| "rmatch n (R (LazyStar c) # k) s cs =
     (case rmatch n k s cs of
        Some m \<Rightarrow> Some m
      | None \<Rightarrow>
          (if cls_len c s = 0 then None
           else rmatch n (R (LazyStar c) # k) (drop (cls_len c s) s) cs))"
| "rmatch n (R (Opt rs) # k) s cs =
     (case rmatch n (map R rs @ k) s cs of Some m \<Rightarrow> Some m | None \<Rightarrow> rmatch n k s cs)"
| "rmatch n (R (Grp i rs) # k) s cs = rmatch n (map R rs @ Close i s # k) s cs"
| "rmatch n (Close i s0 # k) s cs = rmatch n k s ((i, take (length s0 - length s) s0) # cs)"
| "rmatch n (R Bol # k) s cs = (if length s = n then rmatch n k s cs else None)"
| "rmatch n (R Eol # k) s cs = (if s = [] then rmatch n k s cs else None)"
  by pat_completeness auto
termination
  by (relation "measures [\<lambda>(n, k, s, cs). length s,
                         \<lambda>(n, k, s, cs). sum_list (map item_weight k)]")
     (auto simp: weight_map_R cls_len_drop)

text \<open>The leftmost match: the start positions are tried from the left. The result is the
  groups and the text after the match.\<close>

fun find_from :: "nat \<Rightarrow> re list \<Rightarrow> string \<Rightarrow> (caps \<times> string) option" where
  "find_from n r [] = rmatch n [R (Grp 0 r)] [] []"
| "find_from n r (x # xs) =
     (case rmatch n [R (Grp 0 r)] (x # xs) [] of
        Some m \<Rightarrow> Some m
      | None \<Rightarrow> find_from n r xs)"

fun ngroups :: "re \<Rightarrow> nat" where
  "ngroups (Grp i rs) = max i (foldr (\<lambda>r m. max (ngroups r) m) rs 0)"
| "ngroups (Opt rs) = foldr (\<lambda>r m. max (ngroups r) m) rs 0"
| "ngroups r = 0"

text \<open>
  The slice of a match: entry 0 is the whole match (the pattern is matched as group 0),
  entry \<open>i\<close> the text of group \<open>i\<close>, empty for a group that took no part in the match.
\<close>

definition submatches :: "re list \<Rightarrow> caps \<Rightarrow> string list" where
  "submatches r cs =
     map (\<lambda>i. case map_of cs i of None \<Rightarrow> [] | Some t \<Rightarrow> t) [0..<Suc (ngroups (Grp 0 r))]"

text \<open>\<open>FindStringSubmatch\<close>: the slice of the leftmost match; the empty list is Go's nil,
  no match.\<close>

definition FindStringSubmatch :: "re list \<Rightarrow> string \<Rightarrow> string list" where
  "FindStringSubmatch r s =
     (case find_from (length s) r s of
        None \<Rightarrow> []
      | Some (cs, rest) \<Rightarrow> submatches r cs)"

text \<open>
  \<open>FindAllStringSubmatch(s, -1)\<close>: the successive matches, each search starting where the
  match before ended. The patterns it is used with match no empty text (each starts with
  a keyword), so Go's rule for empty matches is not modelled: the search stops should the
  text left not get shorter.
\<close>

function find_all :: "nat \<Rightarrow> re list \<Rightarrow> string \<Rightarrow> string list list" where
  "find_all n r s =
     (case find_from n r s of
        None \<Rightarrow> []
      | Some (cs, rest) \<Rightarrow>
          submatches r cs # (if length rest < length s then find_all n r rest else []))"
  by pat_completeness auto
termination
  by (relation "measure (\<lambda>(n, r, s). length s)") auto

declare find_all.simps [simp del]

definition FindAllStringSubmatch :: "re list \<Rightarrow> string \<Rightarrow> string list list" where
  "FindAllStringSubmatch r s = find_all (length s) r s"

text \<open>Writing patterns: a literal under \<open>(?i)\<close>, a literal.\<close>

definition fold_cls :: "char \<Rightarrow> cls" where
  "fold_cls c =
     (if upper_char c = CHR ''K'' then FoldK
      else if upper_char c = CHR ''S'' then FoldS
      else OneOf [upper_char c, lower_char c])"

definition ci :: "string \<Rightarrow> re list" where
  "ci w = map (\<lambda>c. Cls (fold_cls c)) w"

definition lit :: "string \<Rightarrow> re list" where
  "lit w = map (\<lambda>c. Cls (Lit c)) w"

definition open_quote :: cls where \<comment> \<open>backtick, double quote, quote, opening bracket\<close>
  "open_quote = OneOf [CHR 0x60, CHR 0x22, CHR 0x27, CHR ''['']"

definition close_quote :: cls where \<comment> \<open>backtick, double quote, quote, closing bracket\<close>
  "close_quote = OneOf [CHR 0x60, CHR 0x22, CHR 0x27, CHR '']'']"

definition sp :: string where \<comment> \<open>the bytes of \<open>\s\<close>\<close>
  "sp = [CHR 0x09, CHR 0x0A, CHR 0x0C, CHR 0x0D, CHR 0x20]"


section \<open>The DDL parser\<close>

subsection \<open>More of Go's strings\<close>

text \<open>
  \<open>strings.ToUpper\<close>: the ASCII letters, and the two runes outside ASCII whose upper case
  is an ASCII letter, U+0131 (to \<open>I\<close>) and U+017F (to \<open>S\<close>). Go maps every other rune
  outside ASCII to a rune outside ASCII; the source only looks for ASCII keywords in the
  result, and those stand where they stand in Go's result.
\<close>

definition dotless_i :: string where \<comment> \<open>U+0131\<close>
  "dotless_i = [CHR 0xC4, CHR 0xB1]"

fun ToUpper :: "string \<Rightarrow> string" where
  "ToUpper [] = []"
| "ToUpper (x # xs) =
     (if HasPrefix (x # xs) dotless_i then CHR ''I'' # ToUpper (drop 1 xs)
      else if HasPrefix (x # xs) long_s then CHR ''S'' # ToUpper (drop 1 xs)
      else upper_char x # ToUpper xs)"

text \<open>
  \<open>strings.EqualFold\<close>: equality under simple case folding, here through a key that maps
  each rune to one member of its folding class. The key is exact on ASCII text with
  U+017F and U+212A, which is all that \<open>\w\<close> under \<open>(?i)\<close> captures; the source compares
  captured table names only.
\<close>

fun fold_key :: "string \<Rightarrow> string" where
  "fold_key [] = []"
| "fold_key (x # xs) =
     (if HasPrefix (x # xs) kelvin then CHR ''k'' # fold_key (drop 2 xs)
      else if HasPrefix (x # xs) long_s then CHR ''s'' # fold_key (drop 1 xs)
      else lower_char x # fold_key xs)"

definition EqualFold :: "string \<Rightarrow> string \<Rightarrow> bool" where
  "EqualFold s t = (fold_key s = fold_key t)"

text \<open>\<open>strings.Trim(s, cutset)\<close> for a cutset of ASCII bytes.\<close>

definition Trim :: "string \<Rightarrow> string \<Rightarrow> string" where
  "Trim s cutset =
     rev (dropWhile (\<lambda>c. c \<in> set cutset) (rev (dropWhile (\<lambda>c. c \<in> set cutset) s)))"

definition quotes :: string where \<comment> \<open>backtick, double quote, quote, both brackets\<close>
  "quotes = [CHR 0x60, CHR 0x22, CHR 0x27, CHR ''['', CHR '']'']"

text \<open>An index expression \<open>xs[i]\<close> of Go panics out of range: \<open>None\<close> is the panic.\<close>

definition at :: "'a list \<Rightarrow> nat \<Rightarrow> 'a option" where
  "at xs i = (if i < length xs then Some (xs ! i) else None)"

text \<open>A loop whose body may panic.\<close>

fun fold_opt :: "('s \<Rightarrow> 'a \<Rightarrow> 's option) \<Rightarrow> 'a list \<Rightarrow> 's \<Rightarrow> 's option" where
  "fold_opt f [] s = Some s"
| "fold_opt f (x # xs) s = (case f s x of None \<Rightarrow> None | Some s' \<Rightarrow> fold_opt f xs s')"

subsection \<open>The patterns\<close>

definition tablePattern :: "re list" where
  "tablePattern =
     ci ''CREATE'' @ [Plus Space] @ ci ''TABLE'' @ [Plus Space]
     @ [Opt (ci ''IF'' @ [Plus Space] @ ci ''NOT'' @ [Plus Space] @ ci ''EXISTS''
             @ [Plus Space])]
     @ [Opt [Cls open_quote], Grp 1 [Plus WordFold], Opt [Cls close_quote], Star Space]
     @ lit ''('' @ [Grp 2 [LazyStar AnyNL]] @ lit '')''"

definition columnPattern :: "re list" where
  "columnPattern =
     [Bol, Star Space, Opt [Cls open_quote], Grp 1 [Plus Word], Opt [Cls close_quote],
      Plus Space,
      Grp 2 [Plus Word, Opt (lit ''('' @ [Plus (NoneOf '')'')] @ lit '')'')],
      Star Space, Grp 3 [Star Dot], Eol]"

definition defaultPattern :: "re list" where
  "defaultPattern = ci ''DEFAULT'' @ [Plus Space, Grp 1 [Plus (NoneOf (sp @ '',''))]]"

definition commentPattern :: "re list" where
  "commentPattern =
     ci ''COMMENT''
     @ [Plus Space, Cls (Lit (CHR 0x27)), Grp 1 [Star (NoneOf [CHR 0x27])],
        Cls (Lit (CHR 0x27))]"

definition pkPattern :: "re list" where
  "pkPattern =
     ci ''PRIMARY'' @ [Plus Space] @ ci ''KEY'' @ [Star Space]
     @ lit ''('' @ [Grp 1 [Plus (NoneOf '')'')]] @ lit '')''"

definition fkPattern :: "re list" where
  "fkPattern =
     [Opt (ci ''CONSTRAINT'' @ [Plus Space, Grp 1 [Plus WordFold], Plus Space])]
     @ ci ''FOREIGN'' @ [Plus Space] @ ci ''KEY'' @ [Star Space]
     @ lit ''('' @ [Opt [Cls open_quote], Grp 2 [Plus WordFold], Opt [Cls close_quote]]
     @ lit '')'' @ [Star Space] @ ci ''REFERENCES'' @ [Plus Space]
     @ [Opt [Cls open_quote], Grp 3 [Plus WordFold], Opt [Cls close_quote], Star Space]
     @ lit ''('' @ [Opt [Cls open_quote], Grp 4 [Plus WordFold], Opt [Cls close_quote]]
     @ lit '')''"

definition indexPattern :: "re list" where
  "indexPattern =
     ci ''CREATE'' @ [Plus Space, Opt [Grp 1 (ci ''UNIQUE'' @ [Plus Space])]]
     @ ci ''INDEX'' @ [Plus Space]
     @ [Opt [Cls open_quote], Grp 2 [Plus WordFold], Opt [Cls close_quote], Plus Space]
     @ ci ''ON'' @ [Plus Space]
     @ [Opt [Cls open_quote], Grp 3 [Plus WordFold], Opt [Cls close_quote], Star Space]
     @ lit ''('' @ [Grp 4 [Plus (NoneOf '')'')]] @ lit '')''"

subsection \<open>parseColumns\<close>

definition constraint_line :: "string \<Rightarrow> bool" where
  "constraint_line upperLine =
     (HasPrefix upperLine ''PRIMARY KEY'' \<or> HasPrefix upperLine ''FOREIGN KEY''
      \<or> HasPrefix upperLine ''CONSTRAINT'' \<or> HasPrefix upperLine ''INDEX''
      \<or> HasPrefix upperLine ''KEY'' \<or> HasPrefix upperLine ''UNIQUE'')"

text \<open>The body of the loop over the comma-separated clauses.\<close>

definition parseColumns_step :: "Column slice \<Rightarrow> string \<Rightarrow> Column slice option" where
  "parseColumns_step columns line0 =
     (let line = TrimSpace line0;
          upperLine = ToUpper line
      in if constraint_line upperLine then Some columns
         else (let match = FindStringSubmatch columnPattern line
               in if length match < 3 then Some columns
                  else do {
                    name \<leftarrow> at match 1;
                    ty \<leftarrow> at match 2;
                    rest \<leftarrow> at match 3;
                    let constraints = ToUpper rest;
                    let defaultMatch = FindStringSubmatch defaultPattern rest;
                    dflt \<leftarrow> (if 1 < length defaultMatch then at defaultMatch 1 else Some []);
                    let commentMatch = FindStringSubmatch commentPattern rest;
                    cmt \<leftarrow> (if 1 < length commentMatch then at commentMatch 1 else Some []);
                    Some (append_slice columns
                      \<lparr>Column_Name = name, Column_Type = ty,
                       Column_Nullable = (\<not> Contains constraints ''NOT NULL''),
                       Column_Default = dflt, Column_Comment = cmt,
                       Column_IsPK = Contains constraints ''PRIMARY KEY'',
                       Column_IsFK = False,
                       Column_IsUnique = Contains constraints ''UNIQUE'',
                       Column_IsAutoIncr =
                         (Contains constraints ''AUTO_INCREMENT''
                          \<or> Contains (ToUpper ty) ''SERIAL''
                          \<or> Contains constraints ''IDENTITY'')\<rparr>)
                  }))"

definition parseColumns :: "string \<Rightarrow> DBType \<Rightarrow> Column slice option" where
  "parseColumns columnsDef dbType =
     fold_opt parseColumns_step (Split columnsDef (CHR '','')) None"

subsection \<open>parsePrimaryKey and parseForeignKeys\<close>

definition unquote_step :: "string slice \<Rightarrow> string \<Rightarrow> string slice" where
  "unquote_step pks col0 =
     (let col = Trim (TrimSpace col0) quotes
      in if col \<noteq> [] then append_slice pks col else pks)"

definition parsePrimaryKey :: "string \<Rightarrow> string slice option" where
  "parsePrimaryKey columnsDef =
     (let match = FindStringSubmatch pkPattern columnsDef
      in if length match < 2 then Some None
         else do {
           m1 \<leftarrow> at match 1;
           Some (foldl unquote_step None (Split m1 (CHR '','')))
         })"

definition parseForeignKeys_step :: "FK slice \<Rightarrow> string list \<Rightarrow> FK slice option" where
  "parseForeignKeys_step fks match =
     do {
       m2 \<leftarrow> at match 2;
       m3 \<leftarrow> at match 3;
       m4 \<leftarrow> at match 4;
       m1 \<leftarrow> at match 1;
       Some (append_slice fks
         \<lparr>FK_Name = (if m1 \<noteq> [] then m1 else ''fk_'' @ m2 @ ''_'' @ m3),
          FK_Column = m2, FK_RefTable = m3, FK_RefColumn = m4,
          FK_OnDelete = [], FK_OnUpdate = []\<rparr>)
     }"

definition parseForeignKeys :: "string \<Rightarrow> FK slice option" where
  "parseForeignKeys columnsDef =
     fold_opt parseForeignKeys_step (FindAllStringSubmatch fkPattern columnsDef) None"

subsection \<open>parseIndexes\<close>

definition index_column_step :: "string slice option \<Rightarrow> string \<Rightarrow> string slice option" where
  "index_column_step acc col0 =
     do {
       columns \<leftarrow> acc;
       col \<leftarrow> at (Split (Trim (TrimSpace col0) quotes) (CHR '' '')) 0;
       Some (if col \<noteq> [] then append_slice columns col else columns)
     }"

text \<open>The index is added to the first table whose name equals the table name of the
  statement under case folding; with no such table it is dropped.\<close>

fun attach_index :: "Index \<Rightarrow> string \<Rightarrow> Table list \<Rightarrow> Table list" where
  "attach_index idx tableName [] = []"
| "attach_index idx tableName (t # ts) =
     (if EqualFold (Table_Name t) tableName
      then t\<lparr>Table_Indexes := append_slice (Table_Indexes t) idx\<rparr> # ts
      else t # attach_index idx tableName ts)"

definition parseIndexes_step :: "Table list \<Rightarrow> string list \<Rightarrow> Table list option" where
  "parseIndexes_step tables match =
     (if length match < 5 then Some tables
      else do {
        m1 \<leftarrow> at match 1;
        indexName \<leftarrow> at match 2;
        tableName \<leftarrow> at match 3;
        columnStr \<leftarrow> at match 4;
        columns \<leftarrow> foldl index_column_step (Some None) (Split columnStr (CHR '',''));
        Some (attach_index
          \<lparr>Index_Name = indexName, Index_Columns = columns,
           Index_IsUnique = (TrimSpace m1 \<noteq> []), Index_Type = ''BTREE''\<rparr>
          tableName tables)
      })"

definition parseIndexes :: "string \<Rightarrow> Schema \<Rightarrow> Schema option" where
  "parseIndexes ddl schema =
     do {
       tables \<leftarrow> fold_opt parseIndexes_step (FindAllStringSubmatch indexPattern ddl)
                   (elems (Schema_Tables schema));
       Some (schema\<lparr>Schema_Tables := map_option (\<lambda>ts. tables) (Schema_Tables schema)\<rparr>)
     }"

subsection \<open>ParseDDL\<close>

definition ParseDDL_step :: "DBType \<Rightarrow> Table slice \<Rightarrow> string list \<Rightarrow> Table slice option" where
  "ParseDDL_step dbType tables match =
     (if length match < 3 then Some tables
      else do {
        tableName \<leftarrow> at match 1;
        columnsDef \<leftarrow> at match 2;
        columns \<leftarrow> parseColumns columnsDef dbType;
        pks \<leftarrow> parsePrimaryKey columnsDef;
        fks \<leftarrow> parseForeignKeys columnsDef;
        Some (append_slice tables
          \<lparr>Table_Name = tableName, Table_Columns = columns, Table_PrimaryKey = pks,
           Table_ForeignKeys = fks, Table_Indexes = None\<rparr>)
      })"

text \<open>
  The result is the pair that the Go function returns, the schema and the error (\<open>None\<close>
  is the nil error); the outer \<open>None\<close> is a run-time panic.
\<close>

definition ParseDDL :: "string \<Rightarrow> DBType \<Rightarrow> (Schema \<times> string option) option" where
  "ParseDDL ddl dbType =
     do {
       tables \<leftarrow> fold_opt (ParseDDL_step dbType) (FindAllStringSubmatch tablePattern ddl)
                   (Some []);
       schema \<leftarrow> parseIndexes ddl
                   \<lparr>Schema_Database = [], Schema_Tables = tables, Schema_DBType = dbType\<rparr>;
       Some (schema, None)
     }"

section \<open>Properties of the response extractor\<close>

subsection \<open>Examples of the generation extractor and of parseIssue\<close>

text \<open>
  The text of claim C5: the line \<open>SQL:\<close>, the query, an empty line, the explanation
  header, \<open>ok\<close>, an empty line, the tips header and two bulleted lines.
\<close>

definition generation_text :: string where
  "generation_text =
     ''SQL:'' @ [CHR 0x0A] @ ''SELECT 1'' @ [CHR 0x0A, CHR 0x0A]
     @ hdr_explain @ [CHR 0x0A] @ ''ok'' @ [CHR 0x0A, CHR 0x0A]
     @ hdr_tips @ [CHR 0x0A] @ ''- use index'' @ [CHR 0x0A] @ ''- avoid scan''"

text \<open>
  C5. For the model text of \<open>generation_text\<close>, the generation-mode extractor returns the
  query \<open>SELECT 1\<close>, the explanation \<open>ok\<close> and the tips \<open>use index\<close>, \<open>avoid scan\<close>, in
  that order.
\<close>

theorem generation_extractor_example:
  "parseQueryResponse generation_text
     = (''SELECT 1'', ''ok'', Some [''use index'', ''avoid scan''])"
  by code_simp

text \<open>
  The labels \<open>parseIssue\<close> removes are \<open>lbl_location\<close> and \<open>lbl_suggestion\<close>, the labels of
  the response format its prompt asks for, \<open>- [warning] (message) | (label): (location) |
  (label): (fix)\<close>, with a blank on either side of each pipe. \<open>TrimPrefix\<close> is applied to the
  field as \<open>Split\<close> leaves it, before \<open>TrimSpace\<close>: a label is removed only where it
  stands right after the pipe.
\<close>

lemma parseIssue_labels_after_pipe:
  "parseIssue (''- [warning] missing index |'' @ lbl_location @ '' users.email |''
                  @ lbl_suggestion @ '' add index'')
     = \<lparr>Issue_Type = ''warning'', Issue_Message = ''missing index'',
        Issue_Location = ''users.email'', Issue_Suggestion = ''add index''\<rparr>"
  by code_simp

text \<open>
  C7, on the code: on the issue line
  \<open>- [warning] missing index | location: users.email | suggestion: add index\<close> the parsed
  issue has the type \<open>warning\<close> and the message \<open>missing index\<close>, but its location and its
  suggestion keep their labels. So do they on the same line written with the labels of the
  source, \<open>lbl_location\<close> and \<open>lbl_suggestion\<close>: the blank between the pipe and the label
  keeps \<open>TrimPrefix\<close> from finding the label, for every text of the field.
\<close>

theorem parseIssue_labels_kept:
  "parseIssue ''- [warning] missing index | location: users.email | suggestion: add index''
     = \<lparr>Issue_Type = ''warning'', Issue_Message = ''missing index'',
        Issue_Location = ''location: users.email'',
        Issue_Suggestion = ''suggestion: add index''\<rparr>
   \<and> parseIssue (''- [warning] missing index | '' @ lbl_location @ '' users.email | ''
                  @ lbl_suggestion @ '' add index'')
     = \<lparr>Issue_Type = ''warning'', Issue_Message = ''missing index'',
        Issue_Location = lbl_location @ '' users.email'',
        Issue_Suggestion = lbl_suggestion @ '' add index''\<rparr>
   \<and> TrimPrefix (CHR '' '' # field) lbl_location = CHR '' '' # field
   \<and> TrimPrefix (CHR '' '' # field) lbl_suggestion = CHR '' '' # field"
proof -
  have "parseIssue ''- [warning] missing index | location: users.email | suggestion: add index''
     = \<lparr>Issue_Type = ''warning'', Issue_Message = ''missing index'',
        Issue_Location = ''location: users.email'',
        Issue_Suggestion = ''suggestion: add index''\<rparr>"
    by code_simp
  moreover have "parseIssue (''- [warning] missing index | '' @ lbl_location @ '' users.email | ''
                  @ lbl_suggestion @ '' add index'')
     = \<lparr>Issue_Type = ''warning'', Issue_Message = ''missing index'',
        Issue_Location = lbl_location @ '' users.email'',
        Issue_Suggestion = lbl_suggestion @ '' add index''\<rparr>"
    by code_simp
  moreover have "TrimPrefix (CHR '' '' # field) lbl_location = CHR '' '' # field"
    by (simp add: TrimPrefix_def lbl_location_def)
  moreover have "TrimPrefix (CHR '' '' # field) lbl_suggestion = CHR '' '' # field"
    by (simp add: TrimPrefix_def lbl_suggestion_def)
  ultimately show ?thesis by blast
qed

subsection \<open>Invariants of the validation extractor\<close>

text \<open>
  The loop body is a chain of conditionals; a field read from its result is pushed through
  the chain, where every branch that does not touch the field collapses.
\<close>

lemma if_eq_None: "((if c then x else y) = None) = (if c then x = None else y = None)"
  by simp

lemmas pv_push =
  if_distrib[of validation] if_distrib[of OriginalQuery] if_distrib[of Issues]
  if_distrib[of Suggestions] if_distrib[of IndexUsage] if_distrib[of Score]
  if_distrib[of IsValid] if_distrib[of OptimizedQuery] if_distrib[of pv_section]
  if_eq_None

lemma foldl_invariant:
  assumes "P s" and "\<And>s x. x \<in> set xs \<Longrightarrow> P s \<Longrightarrow> P (f s x)"
  shows "P (foldl f s xs)"
  using assms by (induction xs arbitrary: s) auto

lemma pv_step_OriginalQuery:
  "OriginalQuery (validation (pv_step q st line)) = OriginalQuery (validation st)"
  by (simp add: pv_step_def Let_def pv_push split del: if_split cong: if_cong)

lemma pv_step_Issues:
  "Issues (validation st) = Some xs \<Longrightarrow> Issues (validation (pv_step q st line)) \<noteq> None"
  by (simp add: pv_step_def Let_def pv_push append_slice_def split del: if_split cong: if_cong)

lemma pv_step_Suggestions:
  "Suggestions (validation st) = Some xs \<Longrightarrow> Suggestions (validation (pv_step q st line)) \<noteq> None"
  by (simp add: pv_step_def Let_def pv_push append_slice_def split del: if_split cong: if_cong)

lemma pv_step_IndexUsage:
  "IndexUsage (validation st) = Some xs \<Longrightarrow> IndexUsage (validation (pv_step q st line)) \<noteq> None"
  by (simp add: pv_step_def Let_def pv_push append_slice_def split del: if_split cong: if_cong)

definition pv_inv :: "string \<Rightarrow> pv_state \<Rightarrow> bool" where
  "pv_inv q st =
     (OriginalQuery (validation st) = q \<and> Issues (validation st) \<noteq> None
      \<and> Suggestions (validation st) \<noteq> None \<and> IndexUsage (validation st) \<noteq> None)"

lemma pv_inv_init: "pv_inv q (pv_init q)"
  by (simp add: pv_inv_def pv_init_def)

lemma pv_inv_step:
  assumes "pv_inv q st"
  shows "pv_inv q (pv_step q st line)"
proof -
  from assms obtain xs ys zs where
    i: "Issues (validation st) = Some xs" and s: "Suggestions (validation st) = Some ys"
    and u: "IndexUsage (validation st) = Some zs" and oq: "OriginalQuery (validation st) = q"
    by (auto simp: pv_inv_def)
  have "Issues (validation (pv_step q st line)) \<noteq> None"
    by (rule pv_step_Issues[OF i])
  moreover have "Suggestions (validation (pv_step q st line)) \<noteq> None"
    by (rule pv_step_Suggestions[OF s])
  moreover have "IndexUsage (validation (pv_step q st line)) \<noteq> None"
    by (rule pv_step_IndexUsage[OF u])
  ultimately show ?thesis
    using oq unfolding pv_inv_def by (simp only: pv_step_OriginalQuery simp_thms)
qed

lemma pv_inv_fold: "pv_inv q (foldl (pv_step q) (pv_init q) ls)"
  by (rule foldl_invariant[where P = "pv_inv q"]) (simp_all add: pv_inv_init pv_inv_step)

text \<open>
  What the three lists hold comes from the bulleted lines of the response: a step of the
  loop leaves a list as it is or appends the entry made of its line, and only a bulleted
  line makes it append.
\<close>

definition bulleted_lines :: "string \<Rightarrow> string list" where
  "bulleted_lines response = filter bulleted (map TrimSpace (Split response (CHR 0x0A)))"

lemma if_choice:
  "((if c then x else y) = a \<or> (if c then x else y) = b)
     = (if c then x = a \<or> x = b else y = a \<or> y = b)"
  by simp

lemma pv_step_Issues_unbulleted:
  "\<not> bulleted (TrimSpace line)
   \<Longrightarrow> Issues (validation (pv_step q st line)) = Issues (validation st)"
  by (simp add: pv_step_def Let_def pv_push split del: if_split cong: if_cong)

lemma pv_step_Issues_choice:
  "Issues (validation (pv_step q st line)) = Issues (validation st)
   \<or> Issues (validation (pv_step q st line))
       = append_slice (Issues (validation st)) (parseIssue (TrimSpace line))"
  by (simp add: pv_step_def Let_def pv_push if_choice split del: if_split cong: if_cong)

lemma pv_step_Suggestions_unbulleted:
  "\<not> bulleted (TrimSpace line)
   \<Longrightarrow> Suggestions (validation (pv_step q st line)) = Suggestions (validation st)"
  by (simp add: pv_step_def Let_def pv_push split del: if_split cong: if_cong)

lemma pv_step_Suggestions_choice:
  "Suggestions (validation (pv_step q st line)) = Suggestions (validation st)
   \<or> Suggestions (validation (pv_step q st line))
       = append_slice (Suggestions (validation st)) (unbullet (TrimSpace line))"
  by (simp add: pv_step_def Let_def pv_push if_choice split del: if_split cong: if_cong)

lemma pv_step_IndexUsage_unbulleted:
  "\<not> bulleted (TrimSpace line)
   \<Longrightarrow> IndexUsage (validation (pv_step q st line)) = IndexUsage (validation st)"
  by (simp add: pv_step_def Let_def pv_push split del: if_split cong: if_cong)

lemma pv_step_IndexUsage_choice:
  "IndexUsage (validation (pv_step q st line)) = IndexUsage (validation st)
   \<or> IndexUsage (validation (pv_step q st line))
       = append_slice (IndexUsage (validation st)) (unbullet (TrimSpace line))"
  by (simp add: pv_step_def Let_def pv_push if_choice split del: if_split cong: if_cong)

lemma fold_extracted:
  fixes F :: "QueryValidation \<Rightarrow> 'a slice"
  assumes unb: "\<And>st line. \<not> bulleted (TrimSpace line)
      \<Longrightarrow> F (validation (pv_step q st line)) = F (validation st)"
    and choice: "\<And>st line. F (validation (pv_step q st line)) = F (validation st)
      \<or> F (validation (pv_step q st line))
          = append_slice (F (validation st)) (g (TrimSpace line))"
    and start: "F (validation st) = Some xs"
  shows "\<exists>ys. F (validation (foldl (pv_step q) st ls)) = Some (xs @ ys)
            \<and> ys \<in> set (subseqs (map g (filter bulleted (map TrimSpace ls))))"
  using start
proof (induction ls arbitrary: st xs)
  case Nil
  then show ?case by simp
next
  case (Cons l ls)
  let ?st = "pv_step q st l"
  show ?case
  proof (cases "F (validation ?st) = F (validation st)")
    case True
    with Cons.prems have "F (validation ?st) = Some xs" by simp
    from Cons.IH[OF this] obtain ys where
      ys: "F (validation (foldl (pv_step q) ?st ls)) = Some (xs @ ys)"
        "ys \<in> set (subseqs (map g (filter bulleted (map TrimSpace ls))))" by blast
    then have "ys \<in> set (subseqs (map g (filter bulleted (map TrimSpace (l # ls)))))"
      by (simp add: Let_def)
    with ys(1) show ?thesis by auto
  next
    case False
    with unb[of l st] have b: "bulleted (TrimSpace l)" by blast
    from False choice[of st l] Cons.prems
    have "F (validation ?st) = Some (xs @ [g (TrimSpace l)])"
      by (simp add: append_slice_def elems_def)
    from Cons.IH[OF this] obtain ys where
      ys: "F (validation (foldl (pv_step q) ?st ls)) = Some ((xs @ [g (TrimSpace l)]) @ ys)"
        "ys \<in> set (subseqs (map g (filter bulleted (map TrimSpace ls))))" by blast
    from ys(2) b have "g (TrimSpace l) # ys
        \<in> set (subseqs (map g (filter bulleted (map TrimSpace (l # ls)))))"
      by (simp add: Let_def)
    with ys(1) show ?thesis by auto
  qed
qed

lemma pv_step_section_issues:
  "\<not> HasPrefix (TrimSpace line) hdr_issues \<Longrightarrow> pv_section st \<noteq> ''issues''
   \<Longrightarrow> pv_section (pv_step q st line) \<noteq> ''issues''"
  apply (simp add: pv_step_def Let_def pv_push split del: if_split cong: if_cong)
  apply simp
  done

lemma pv_step_section_indexes:
  "\<not> HasPrefix (TrimSpace line) hdr_indexes \<Longrightarrow> pv_section st \<noteq> ''indexes''
   \<Longrightarrow> pv_section (pv_step q st line) \<noteq> ''indexes''"
  apply (simp add: pv_step_def Let_def pv_push split del: if_split cong: if_cong)
  apply simp
  done

lemma pv_step_section_suggestions:
  "\<not> HasPrefix (TrimSpace line) hdr_suggestions \<Longrightarrow> pv_section st \<noteq> ''suggestions''
   \<Longrightarrow> pv_section (pv_step q st line) \<noteq> ''suggestions''"
  apply (simp add: pv_step_def Let_def pv_push split del: if_split cong: if_cong)
  apply simp
  done

lemma pv_step_Issues_section:
  "pv_section st \<noteq> ''issues''
   \<Longrightarrow> Issues (validation (pv_step q st line)) = Issues (validation st)"
  by (simp add: pv_step_def Let_def pv_push split del: if_split cong: if_cong)

lemma pv_step_IndexUsage_section:
  "pv_section st \<noteq> ''indexes''
   \<Longrightarrow> IndexUsage (validation (pv_step q st line)) = IndexUsage (validation st)"
  by (simp add: pv_step_def Let_def pv_push split del: if_split cong: if_cong)

lemma pv_step_Suggestions_section:
  "pv_section st \<noteq> ''suggestions''
   \<Longrightarrow> Suggestions (validation (pv_step q st line)) = Suggestions (validation st)"
  by (simp add: pv_step_def Let_def pv_push split del: if_split cong: if_cong)

lemma fold_section_absent:
  assumes sec: "\<And>st line. \<not> HasPrefix (TrimSpace line) h \<Longrightarrow> pv_section st \<noteq> s
      \<Longrightarrow> pv_section (pv_step q st line) \<noteq> s"
    and keep: "\<And>st line. pv_section st \<noteq> s
      \<Longrightarrow> F (validation (pv_step q st line)) = F (validation st)"
    and "list_all (\<lambda>line. \<not> HasPrefix (TrimSpace line) h) ls"
    and "pv_section st \<noteq> s"
  shows "F (validation (foldl (pv_step q) st ls)) = F (validation st)"
  using assms(3,4)
proof (induction ls arbitrary: st)
  case Nil
  then show ?case by simp
next
  case (Cons l ls)
  from Cons.prems have a: "\<not> HasPrefix (TrimSpace l) h"
    and b: "list_all (\<lambda>line. \<not> HasPrefix (TrimSpace line) h) ls" by simp_all
  have "pv_section (pv_step q st l) \<noteq> s"
    by (rule sec[OF a Cons.prems(2)])
  from Cons.IH[OF b this] show ?case
    by (simp add: keep[OF Cons.prems(2)])
qed

text \<open>A response with an issues section of one bulleted line, and one whose issues section
  holds no bulleted line.\<close>

definition resp_one_issue :: string where
  "resp_one_issue =
     hdr_valid @ '' true'' @ [CHR 0x0A] @ hdr_issues @ [CHR 0x0A] @ ''- [error] full scan''"

definition resp_no_issue :: string where
  "resp_no_issue = hdr_issues @ [CHR 0x0A] @ ''nothing to report''"

text \<open>
  C10. For every response text and every original query, the record the validation
  extractor returns has \<open>OriginalQuery\<close> equal to the original query, and its \<open>Issues\<close>,
  \<open>Suggestions\<close> and \<open>IndexUsage\<close> are non-nil slices. They hold nothing but what is
  extracted: the issues are a subsequence of the bulleted lines of the response, each
  parsed by \<open>parseIssue\<close>, the suggestions and the usable indexes a subsequence of the
  bulleted lines without their bullets. So when the response has no bulleted line the three
  lists are the empty non-nil slice, and so is each list whose section header stands on no
  line.
\<close>

theorem validation_original_and_lists:
  "OriginalQuery (parseValidationResponse response originalQuery) = originalQuery
   \<and> Issues (parseValidationResponse response originalQuery) \<noteq> None
   \<and> Suggestions (parseValidationResponse response originalQuery) \<noteq> None
   \<and> IndexUsage (parseValidationResponse response originalQuery) \<noteq> None
   \<and> elems (Issues (parseValidationResponse response originalQuery))
       \<in> set (subseqs (map parseIssue (bulleted_lines response)))
   \<and> elems (Suggestions (parseValidationResponse response originalQuery))
       \<in> set (subseqs (map unbullet (bulleted_lines response)))
   \<and> elems (IndexUsage (parseValidationResponse response originalQuery))
       \<in> set (subseqs (map unbullet (bulleted_lines response)))
   \<and> (bulleted_lines response = []
      \<longrightarrow> Issues (parseValidationResponse response originalQuery) = Some []
        \<and> Suggestions (parseValidationResponse response originalQuery) = Some []
        \<and> IndexUsage (parseValidationResponse response originalQuery) = Some [])
   \<and> (list_all (\<lambda>line. \<not> HasPrefix (TrimSpace line) hdr_issues) (Split response (CHR 0x0A))
      \<longrightarrow> Issues (parseValidationResponse response originalQuery) = Some [])
   \<and> (list_all (\<lambda>line. \<not> HasPrefix (TrimSpace line) hdr_suggestions)
          (Split response (CHR 0x0A))
      \<longrightarrow> Suggestions (parseValidationResponse response originalQuery) = Some [])
   \<and> (list_all (\<lambda>line. \<not> HasPrefix (TrimSpace line) hdr_indexes) (Split response (CHR 0x0A))
      \<longrightarrow> IndexUsage (parseValidationResponse response originalQuery) = Some [])"
proof -
  let ?ls = "Split response (CHR 0x0A)"
  let ?v = "validation (foldl (pv_step originalQuery) (pv_init originalQuery) ?ls)"
  let ?r = "parseValidationResponse response originalQuery"
  have r: "OriginalQuery ?r = OriginalQuery ?v" "Issues ?r = Issues ?v"
    "Suggestions ?r = Suggestions ?v" "IndexUsage ?r = IndexUsage ?v"
    by (simp_all add: parseValidationResponse_def Let_def)
  have init: "Issues (validation (pv_init originalQuery)) = Some []"
    "Suggestions (validation (pv_init originalQuery)) = Some []"
    "IndexUsage (validation (pv_init originalQuery)) = Some []"
    "pv_section (pv_init originalQuery) \<noteq> ''issues''"
    "pv_section (pv_init originalQuery) \<noteq> ''suggestions''"
    "pv_section (pv_init originalQuery) \<noteq> ''indexes''"
    by (simp_all add: pv_init_def)
  have oq: "OriginalQuery ?r = originalQuery"
    using pv_inv_fold[of originalQuery ?ls] by (simp add: r pv_inv_def)
  from fold_extracted[where F = Issues and g = parseIssue and q = originalQuery and ls = ?ls,
      OF pv_step_Issues_unbulleted pv_step_Issues_choice init(1)]
  obtain xs where xs: "Issues ?r = Some xs"
    "xs \<in> set (subseqs (map parseIssue (bulleted_lines response)))"
    by (auto simp: r bulleted_lines_def)
  from fold_extracted[where F = Suggestions and g = unbullet and q = originalQuery and ls = ?ls,
      OF pv_step_Suggestions_unbulleted pv_step_Suggestions_choice init(2)]
  obtain ys where ys: "Suggestions ?r = Some ys"
    "ys \<in> set (subseqs (map unbullet (bulleted_lines response)))"
    by (auto simp: r bulleted_lines_def)
  from fold_extracted[where F = IndexUsage and g = unbullet and q = originalQuery and ls = ?ls,
      OF pv_step_IndexUsage_unbulleted pv_step_IndexUsage_choice init(3)]
  obtain zs where zs: "IndexUsage ?r = Some zs"
    "zs \<in> set (subseqs (map unbullet (bulleted_lines response)))"
    by (auto simp: r bulleted_lines_def)
  have none: "bulleted_lines response = [] \<Longrightarrow> xs = [] \<and> ys = [] \<and> zs = []"
    using xs(2) ys(2) zs(2) by simp
  have i: "list_all (\<lambda>line. \<not> HasPrefix (TrimSpace line) hdr_issues) ?ls
      \<Longrightarrow> Issues ?r = Some []"
    using fold_section_absent[where h = hdr_issues and s = "''issues''" and q = originalQuery
        and F = Issues and ls = ?ls and st = "pv_init originalQuery",
        OF pv_step_section_issues pv_step_Issues_section]
    by (simp add: r init)
  have s: "list_all (\<lambda>line. \<not> HasPrefix (TrimSpace line) hdr_suggestions) ?ls
      \<Longrightarrow> Suggestions ?r = Some []"
    using fold_section_absent[where h = hdr_suggestions and s = "''suggestions''" and q = originalQuery
        and F = Suggestions and ls = ?ls and st = "pv_init originalQuery",
        OF pv_step_section_suggestions pv_step_Suggestions_section]
    by (simp add: r init)
  have u: "list_all (\<lambda>line. \<not> HasPrefix (TrimSpace line) hdr_indexes) ?ls
      \<Longrightarrow> IndexUsage ?r = Some []"
    using fold_section_absent[where h = hdr_indexes and s = "''indexes''" and q = originalQuery
        and F = IndexUsage and ls = ?ls and st = "pv_init originalQuery",
        OF pv_step_section_indexes pv_step_IndexUsage_section]
    by (simp add: r init)
  show ?thesis
    using oq xs ys zs none i s u by (simp add: elems_def)
qed

theorem validation_original_and_lists_witness:
  "bulleted_lines resp_no_issue = []
   \<and> Issues (parseValidationResponse resp_no_issue ''SELECT 1'') = Some []
   \<and> Suggestions (parseValidationResponse resp_no_issue ''SELECT 1'') = Some []
   \<and> IndexUsage (parseValidationResponse resp_no_issue ''SELECT 1'') = Some []
   \<and> list_all (\<lambda>line. \<not> HasPrefix (TrimSpace line) hdr_issues) (Split [] (CHR 0x0A))
   \<and> Issues (parseValidationResponse [] ''SELECT 1'') = Some []
   \<and> list_all (\<lambda>line. \<not> HasPrefix (TrimSpace line) hdr_suggestions)
        (Split resp_one_issue (CHR 0x0A))
   \<and> Suggestions (parseValidationResponse resp_one_issue ''SELECT 1'') = Some []
   \<and> list_all (\<lambda>line. \<not> HasPrefix (TrimSpace line) hdr_indexes)
        (Split resp_one_issue (CHR 0x0A))
   \<and> IndexUsage (parseValidationResponse resp_one_issue ''SELECT 1'') = Some []
   \<and> OriginalQuery (parseValidationResponse resp_one_issue ''SELECT 1'') = ''SELECT 1''
   \<and> elems (Issues (parseValidationResponse resp_one_issue ''SELECT 1''))
       \<in> set (subseqs (map parseIssue (bulleted_lines resp_one_issue)))"
proof -
  have h0: "bulleted_lines resp_no_issue = []"
    by code_simp
  have h1: "list_all (\<lambda>line. \<not> HasPrefix (TrimSpace line) hdr_issues) (Split [] (CHR 0x0A))"
    by code_simp
  have h2: "list_all (\<lambda>line. \<not> HasPrefix (TrimSpace line) hdr_suggestions)
        (Split resp_one_issue (CHR 0x0A))"
    by code_simp
  have h3: "list_all (\<lambda>line. \<not> HasPrefix (TrimSpace line) hdr_indexes)
        (Split resp_one_issue (CHR 0x0A))"
    by code_simp
  from validation_original_and_lists[of resp_no_issue "''SELECT 1''"] h0
  have a: "Issues (parseValidationResponse resp_no_issue ''SELECT 1'') = Some []
    \<and> Suggestions (parseValidationResponse resp_no_issue ''SELECT 1'') = Some []
    \<and> IndexUsage (parseValidationResponse resp_no_issue ''SELECT 1'') = Some []"
    by blast
  from validation_original_and_lists[of "[]" "''SELECT 1''"] h1
  have b: "Issues (parseValidationResponse [] ''SELECT 1'') = Some []"
    by blast
  from validation_original_and_lists[of resp_one_issue "''SELECT 1''"] h2 h3
  have c: "Suggestions (parseValidationResponse resp_one_issue ''SELECT 1'') = Some []
    \<and> IndexUsage (parseValidationResponse resp_one_issue ''SELECT 1'') = Some []
    \<and> OriginalQuery (parseValidationResponse resp_one_issue ''SELECT 1'') = ''SELECT 1''
    \<and> elems (Issues (parseValidationResponse resp_one_issue ''SELECT 1''))
       \<in> set (subseqs (map parseIssue (bulleted_lines resp_one_issue)))"
    by blast
  from h0 h1 h2 h3 a b c show ?thesis by blast
qed

text \<open>The one bulleted line of \<open>resp_one_issue\<close> is extracted.\<close>

lemma resp_one_issue_extracted:
  "Issues (parseValidationResponse resp_one_issue ''SELECT 1'')
     = Some [\<lparr>Issue_Type = ''error'', Issue_Message = ''full scan'',
              Issue_Location = [], Issue_Suggestion = []\<rparr>]"
  by code_simp


subsection \<open>The defaults of the validation extractor\<close>

lemma pv_step_Score:
  "\<not> (HasPrefix (TrimSpace line) hdr_score
       \<and> 0 < scan_score (TrimSpace line) \<and> scan_score (TrimSpace line) \<le> 100)
   \<Longrightarrow> Score (validation (pv_step q st line)) = Score (validation st)"
  apply (simp add: pv_step_def Let_def pv_push split del: if_split cong: if_cong)
  apply (cases "HasPrefix (TrimSpace line) hdr_score")
   apply auto
  done

lemma pv_step_IsValid:
  "\<not> HasPrefix (TrimSpace line) hdr_valid
   \<Longrightarrow> IsValid (validation (pv_step q st line)) = IsValid (validation st)"
  by (simp add: pv_step_def Let_def pv_push split del: if_split cong: if_cong)

lemma pv_step_section:
  "\<not> HasPrefix (TrimSpace line) hdr_optimized \<Longrightarrow> pv_section st \<noteq> ''optimized''
   \<Longrightarrow> pv_section (pv_step q st line) \<noteq> ''optimized''"
  apply (simp add: pv_step_def Let_def pv_push split del: if_split cong: if_cong)
  apply simp
  done

lemma pv_step_OptimizedQuery:
  "pv_section st \<noteq> ''optimized''
   \<Longrightarrow> OptimizedQuery (validation (pv_step q st line)) = OptimizedQuery (validation st)"
  by (simp add: pv_step_def Let_def pv_push split del: if_split cong: if_cong)

lemma fold_Score:
  assumes "list_all (\<lambda>line. \<not> (HasPrefix (TrimSpace line) hdr_score
       \<and> 0 < scan_score (TrimSpace line) \<and> scan_score (TrimSpace line) \<le> 100)) ls"
  shows "Score (validation (foldl (pv_step q) st ls)) = Score (validation st)"
  using assms by (induction ls arbitrary: st) (simp_all add: pv_step_Score)

lemma fold_IsValid:
  assumes "list_all (\<lambda>line. \<not> HasPrefix (TrimSpace line) hdr_valid) ls"
  shows "IsValid (validation (foldl (pv_step q) st ls)) = IsValid (validation st)"
  using assms by (induction ls arbitrary: st) (simp_all add: pv_step_IsValid)

lemma fold_OptimizedQuery:
  assumes "list_all (\<lambda>line. \<not> HasPrefix (TrimSpace line) hdr_optimized) ls"
    and "pv_section st \<noteq> ''optimized''"
  shows "OptimizedQuery (validation (foldl (pv_step q) st ls)) = OptimizedQuery (validation st)"
  using assms
proof (induction ls arbitrary: st)
  case Nil
  then show ?case by simp
next
  case (Cons l ls)
  from Cons.prems have a: "\<not> HasPrefix (TrimSpace l) hdr_optimized"
    and b: "list_all (\<lambda>line. \<not> HasPrefix (TrimSpace line) hdr_optimized) ls" by simp_all
  have "pv_section (pv_step q st l) \<noteq> ''optimized''"
    by (rule pv_step_section[OF a Cons.prems(2)])
  from Cons.IH[OF b this] show ?case
    by (simp add: pv_step_OptimizedQuery[OF Cons.prems(2)])
qed

text \<open>
  C6, as stated, fails: a text without a score header can say that the query is not valid,
  and then \<open>IsValid\<close> is false; and with no optimised-query section at all, the optimised
  query is the original query after the final clean-up, which differs from the original
  when that starts with a blank.
\<close>

theorem validation_defaults_counterexample:
  "list_all (\<lambda>line. \<not> HasPrefix (TrimSpace line) hdr_score)
      (Split (hdr_valid @ '' false'') (CHR 0x0A))
   \<and> IsValid (parseValidationResponse (hdr_valid @ '' false'') ''SELECT 1'') = False
   \<and> OptimizedQuery (parseValidationResponse [] '' SELECT 1'') \<noteq> '' SELECT 1''"
  by code_simp

text \<open>
  C6, amended. For every response text and original query: if no line carries the score
  header, the score is 50; more generally, if every line that carries the score header
  holds a token that does not scan to a number from 1 to 100, the score is 50; if no line
  carries the validity header, \<open>IsValid\<close> is true; if no line carries the optimised-query
  header, the optimised query is the original query after the final clean-up (fence
  markers and surrounding white space removed), and the original query itself when the
  clean-up leaves nothing.
\<close>

theorem validation_defaults:
  "(list_all (\<lambda>line. \<not> HasPrefix (TrimSpace line) hdr_score) (Split response (CHR 0x0A))
      \<longrightarrow> Score (parseValidationResponse response originalQuery) = 50)
   \<and> (list_all (\<lambda>line. \<not> (HasPrefix (TrimSpace line) hdr_score
            \<and> 0 < scan_score (TrimSpace line) \<and> scan_score (TrimSpace line) \<le> 100))
          (Split response (CHR 0x0A))
      \<longrightarrow> Score (parseValidationResponse response originalQuery) = 50)
   \<and> (list_all (\<lambda>line. \<not> HasPrefix (TrimSpace line) hdr_valid) (Split response (CHR 0x0A))
      \<longrightarrow> IsValid (parseValidationResponse response originalQuery) = True)
   \<and> (list_all (\<lambda>line. \<not> HasPrefix (TrimSpace line) hdr_optimized) (Split response (CHR 0x0A))
      \<longrightarrow> OptimizedQuery (parseValidationResponse response originalQuery) =
            (if clean_query originalQuery = [] then originalQuery
             else clean_query originalQuery))"
proof -
  let ?ls = "Split response (CHR 0x0A)"
  have init: "Score (validation (pv_init originalQuery)) = 50"
    "IsValid (validation (pv_init originalQuery)) = True"
    "OptimizedQuery (validation (pv_init originalQuery)) = originalQuery"
    "pv_section (pv_init originalQuery) \<noteq> ''optimized''"
    by (simp_all add: pv_init_def)
  have weaken: "list_all (\<lambda>line. \<not> HasPrefix (TrimSpace line) hdr_score) ?ls \<Longrightarrow>
     list_all (\<lambda>line. \<not> (HasPrefix (TrimSpace line) hdr_score
            \<and> 0 < scan_score (TrimSpace line) \<and> scan_score (TrimSpace line) \<le> 100)) ?ls"
    by (simp add: list_all_iff)
  show ?thesis
    using fold_Score[of ?ls originalQuery "pv_init originalQuery"]
      fold_IsValid[of ?ls originalQuery "pv_init originalQuery"]
      fold_OptimizedQuery[of ?ls "pv_init originalQuery" originalQuery]
      weaken init
    by (simp add: parseValidationResponse_def Let_def)
qed

text \<open>A response with an out-of-range score and an issues section, and the empty response.\<close>

definition resp6 :: string where
  "resp6 = hdr_score @ '' 150'' @ [CHR 0x0A] @ hdr_issues @ [CHR 0x0A] @ ''- [error] full scan''"

theorem validation_defaults_witness:
  "list_all (\<lambda>line. \<not> HasPrefix (TrimSpace line) hdr_score) (Split [] (CHR 0x0A))
   \<and> Score (parseValidationResponse [] ''SELECT 1'') = 50
   \<and> list_all (\<lambda>line. \<not> (HasPrefix (TrimSpace line) hdr_score
            \<and> 0 < scan_score (TrimSpace line) \<and> scan_score (TrimSpace line) \<le> 100))
          (Split resp6 (CHR 0x0A))
   \<and> Score (parseValidationResponse resp6 ''SELECT 1'') = 50
   \<and> list_all (\<lambda>line. \<not> HasPrefix (TrimSpace line) hdr_valid) (Split resp6 (CHR 0x0A))
   \<and> IsValid (parseValidationResponse resp6 ''SELECT 1'') = True
   \<and> list_all (\<lambda>line. \<not> HasPrefix (TrimSpace line) hdr_optimized) (Split resp6 (CHR 0x0A))
   \<and> OptimizedQuery (parseValidationResponse resp6 ''SELECT 1'') = ''SELECT 1''"
proof -
  have h0: "list_all (\<lambda>line. \<not> HasPrefix (TrimSpace line) hdr_score) (Split [] (CHR 0x0A))"
    by code_simp
  have h1: "list_all (\<lambda>line. \<not> (HasPrefix (TrimSpace line) hdr_score
            \<and> 0 < scan_score (TrimSpace line) \<and> scan_score (TrimSpace line) \<le> 100))
          (Split resp6 (CHR 0x0A))"
    by code_simp
  have h2: "list_all (\<lambda>line. \<not> HasPrefix (TrimSpace line) hdr_valid) (Split resp6 (CHR 0x0A))"
    by code_simp
  have h3: "list_all (\<lambda>line. \<not> HasPrefix (TrimSpace line) hdr_optimized) (Split resp6 (CHR 0x0A))"
    by code_simp
  have c: "clean_query ''SELECT 1'' = ''SELECT 1''" by code_simp
  from validation_defaults[of "[]" "''SELECT 1''"] h0
  have r0: "Score (parseValidationResponse [] ''SELECT 1'') = 50" by blast
  from validation_defaults[of resp6 "''SELECT 1''"] h1 h2 h3 c
  have "Score (parseValidationResponse resp6 ''SELECT 1'') = 50
    \<and> IsValid (parseValidationResponse resp6 ''SELECT 1'') = True
    \<and> OptimizedQuery (parseValidationResponse resp6 ''SELECT 1'') = ''SELECT 1''"
    by simp
  with h0 h1 h2 h3 r0 show ?thesis by blast
qed

section \<open>Properties of the DDL parser\<close>

subsection \<open>ParseDDL neither panics nor returns an error\<close>

lemma length_submatches: "length (submatches r cs) = Suc (ngroups (Grp 0 r))"
  by (simp add: submatches_def)

lemma FindStringSubmatch_length:
  "FindStringSubmatch r s = [] \<or> length (FindStringSubmatch r s) = Suc (ngroups (Grp 0 r))"
  by (auto simp: FindStringSubmatch_def length_submatches split: option.splits)

lemma find_all_length:
  "m \<in> set (find_all n r s) \<Longrightarrow> length m = Suc (ngroups (Grp 0 r))"
proof (induction n r s rule: find_all.induct)
  case (1 n r s)
  show ?case
  proof (cases "find_from n r s")
    case None
    with "1.prems" show ?thesis by (simp add: find_all.simps[of n r s])
  next
    case (Some p)
    obtain cs rest where p: "p = (cs, rest)" by (cases p)
    show ?thesis
    proof (cases "length rest < length s")
      case True
      with "1.prems" Some p have "m = submatches r cs \<or> m \<in> set (find_all n r rest)"
        by (simp add: find_all.simps[of n r s])
      then show ?thesis
        using "1.IH"[OF Some p[symmetric] True] length_submatches[of r cs] by blast
    next
      case False
      with "1.prems" Some p have "m = submatches r cs"
        by (simp add: find_all.simps[of n r s])
      then show ?thesis by (simp only: length_submatches)
    qed
  qed
qed

lemma FindAll_length:
  "m \<in> set (FindAllStringSubmatch r s) \<Longrightarrow> length m = Suc (ngroups (Grp 0 r))"
  by (simp only: FindAllStringSubmatch_def find_all_length)

lemma ngroups_patterns:
  "ngroups (Grp 0 tablePattern) = 2" "ngroups (Grp 0 columnPattern) = 3"
  "ngroups (Grp 0 defaultPattern) = 1" "ngroups (Grp 0 commentPattern) = 1"
  "ngroups (Grp 0 pkPattern) = 1" "ngroups (Grp 0 fkPattern) = 4"
  "ngroups (Grp 0 indexPattern) = 4"
  by code_simp+

lemma at_Some: "i < length xs \<Longrightarrow> at xs i = Some (xs ! i)"
  by (simp add: at_def)

lemma fold_opt_Some:
  assumes "\<And>s x. x \<in> set xs \<Longrightarrow> \<exists>y. f s x = Some y"
  shows "\<exists>y. fold_opt f xs s = Some y"
  using assms
proof (induction xs arbitrary: s)
  case Nil
  then show ?case by simp
next
  case (Cons x xs)
  from Cons.prems[of x s] obtain y where "f s x = Some y" by auto
  with Cons.IH[of y] Cons.prems show ?case by auto
qed

lemma optional_group_Some:
  "\<exists>y. (if 1 < length m then at m 1 else Some []) = Some y"
  by (simp add: at_def)

lemma parseColumns_step_Some: "\<exists>y. parseColumns_step columns line = Some y"
proof -
  let ?l = "TrimSpace line"
  let ?m = "FindStringSubmatch columnPattern ?l"
  show ?thesis
  proof (cases "constraint_line (ToUpper ?l) \<or> length ?m < 3")
    case True
    then show ?thesis by (auto simp: parseColumns_step_def Let_def)
  next
    case False
    with FindStringSubmatch_length[of columnPattern ?l] have len: "length ?m = 4"
      by (auto simp: ngroups_patterns simp del: ngroups.simps)
    let ?rest = "?m ! 3"
    from optional_group_Some[of "FindStringSubmatch defaultPattern ?rest"]
      optional_group_Some[of "FindStringSubmatch commentPattern ?rest"]
    obtain dv cv where
      "(if 1 < length (FindStringSubmatch defaultPattern ?rest)
                then at (FindStringSubmatch defaultPattern ?rest) 1 else Some []) = Some dv"
      "(if 1 < length (FindStringSubmatch commentPattern ?rest)
                then at (FindStringSubmatch commentPattern ?rest) 1 else Some []) = Some cv"
      by blast
    with False len show ?thesis
      by (simp add: parseColumns_step_def Let_def at_Some)
  qed
qed

lemma parseColumns_Some: "\<exists>y. parseColumns columnsDef dbType = Some y"
  unfolding parseColumns_def by (rule fold_opt_Some) (rule parseColumns_step_Some)

lemma parsePrimaryKey_Some: "\<exists>y. parsePrimaryKey columnsDef = Some y"
  using FindStringSubmatch_length[of pkPattern columnsDef]
  by (auto simp: parsePrimaryKey_def Let_def ngroups_patterns at_Some simp del: ngroups.simps)

lemma parseForeignKeys_Some: "\<exists>y. parseForeignKeys columnsDef = Some y"
  unfolding parseForeignKeys_def
proof (rule fold_opt_Some)
  fix s m assume "m \<in> set (FindAllStringSubmatch fkPattern columnsDef)"
  then have "length m = 5"
    by (simp add: FindAll_length ngroups_patterns del: ngroups.simps)
  then show "\<exists>y. parseForeignKeys_step s m = Some y"
    by (simp add: parseForeignKeys_step_def at_Some)
qed

lemma split_from_nonempty: "split_from sep cur s \<noteq> []"
  by (induction s arbitrary: cur) auto

lemma Split_nonempty: "Split s sep \<noteq> []"
  by (simp add: Split_def split_from_nonempty)

lemma index_column_step_Some: "\<exists>y. index_column_step (Some a) col = Some y"
  by (simp add: index_column_step_def at_def Split_nonempty)

lemma index_columns_Some: "\<exists>y. foldl index_column_step (Some a) cols = Some y"
proof (induction cols arbitrary: a)
  case Nil
  then show ?case by simp
next
  case (Cons c cols)
  from index_column_step_Some[of a c] obtain y where "index_column_step (Some a) c = Some y"
    by blast
  with Cons.IH[of y] show ?case by simp
qed

lemma parseIndexes_step_Some: "\<exists>y. parseIndexes_step tables m = Some y"
proof (cases "length m < 5")
  case True
  then show ?thesis by (simp add: parseIndexes_step_def)
next
  case False
  from index_columns_Some[of None "Split (m ! 4) (CHR '','')"] obtain y where
    "foldl index_column_step (Some None) (Split (m ! 4) (CHR '','')) = Some y" by blast
  with False show ?thesis by (simp add: parseIndexes_step_def at_Some)
qed

lemma parseIndexes_Some: "\<exists>y. parseIndexes ddl schema = Some y"
proof -
  from fold_opt_Some[of "FindAllStringSubmatch indexPattern ddl" parseIndexes_step
      "elems (Schema_Tables schema)"] parseIndexes_step_Some
  obtain y where "fold_opt parseIndexes_step (FindAllStringSubmatch indexPattern ddl)
      (elems (Schema_Tables schema)) = Some y" by blast
  then show ?thesis by (simp add: parseIndexes_def)
qed

lemma ParseDDL_step_Some: "\<exists>y. ParseDDL_step dbType tables m = Some y"
proof (cases "length m < 3")
  case True
  then show ?thesis by (simp add: ParseDDL_step_def)
next
  case False
  from parseColumns_Some[of "m ! 2" dbType] parsePrimaryKey_Some[of "m ! 2"]
    parseForeignKeys_Some[of "m ! 2"]
  obtain a b c where "parseColumns (m ! 2) dbType = Some a"
    "parsePrimaryKey (m ! 2) = Some b" "parseForeignKeys (m ! 2) = Some c" by blast
  with False show ?thesis by (simp add: ParseDDL_step_def at_Some)
qed

lemma parseIndexes_no_tables:
  "fold_opt parseIndexes_step ms [] = Some []"
proof (induction ms)
  case Nil
  then show ?case by simp
next
  case (Cons m ms)
  from parseIndexes_step_Some[of "[]" m] obtain y where y: "parseIndexes_step [] m = Some y"
    by blast
  have "y = []"
  proof (cases "length m < 5")
    case True
    with y show ?thesis by (simp add: parseIndexes_step_def)
  next
    case False
    with y show ?thesis
      by (auto simp: parseIndexes_step_def at_Some split: bind_splits)
  qed
  with y Cons.IH show ?case by simp
qed

text \<open>
  C3. For every input text and dialect tag, \<open>ParseDDL\<close> returns a schema and the nil
  error, without a panic; when the text holds no \<open>CREATE TABLE\<close> statement that the
  table pattern recognises, the table list of that schema is empty (and not nil).
\<close>

theorem ParseDDL_never_fails:
  "(\<exists>schema. ParseDDL ddl dbType = Some (schema, None))
   \<and> (FindAllStringSubmatch tablePattern ddl = []
        \<longrightarrow> (\<exists>schema. ParseDDL ddl dbType = Some (schema, None)
                      \<and> Schema_Tables schema = Some []))"
proof -
  from fold_opt_Some[of "FindAllStringSubmatch tablePattern ddl" "ParseDDL_step dbType" "Some []"]
    ParseDDL_step_Some
  obtain tables where t: "fold_opt (ParseDDL_step dbType)
      (FindAllStringSubmatch tablePattern ddl) (Some []) = Some tables" by blast
  from parseIndexes_Some obtain schema where s: "parseIndexes ddl
      \<lparr>Schema_Database = [], Schema_Tables = tables, Schema_DBType = dbType\<rparr> = Some schema"
    by blast
  from t s have 1: "ParseDDL ddl dbType = Some (schema, None)"
    by (simp add: ParseDDL_def)
  have 2: "Schema_Tables schema = Some []" if "FindAllStringSubmatch tablePattern ddl = []"
  proof -
    from that t have "tables = Some []" by simp
    with s show ?thesis
      by (auto simp: parseIndexes_def elems_def parseIndexes_no_tables split: bind_splits)
  qed
  from 1 2 show ?thesis by simp
qed

theorem ParseDDL_never_fails_witness:
  "FindAllStringSubmatch tablePattern ''SELECT 1 FROM users'' = []
   \<and> ParseDDL ''SELECT 1 FROM users'' ''mysql''
       = Some (\<lparr>Schema_Database = [], Schema_Tables = Some [], Schema_DBType = ''mysql''\<rparr>, None)"
proof -
  have h: "FindAllStringSubmatch tablePattern ''SELECT 1 FROM users'' = []"
    by code_simp
  from ParseDDL_never_fails[of "''SELECT 1 FROM users''" "''mysql''"] h
  obtain schema where s: "ParseDDL ''SELECT 1 FROM users'' ''mysql'' = Some (schema, None)"
    and "Schema_Tables schema = Some []" by blast
  moreover have "ParseDDL ''SELECT 1 FROM users'' ''mysql''
       = Some (\<lparr>Schema_Database = [], Schema_Tables = Some [], Schema_DBType = ''mysql''\<rparr>, None)"
    by code_simp
  ultimately show ?thesis using h by simp
qed


subsection \<open>The dialect tag is only stored\<close>

lemma ParseDDL_step_dbType: "ParseDDL_step dbType = ParseDDL_step []"
  by (simp add: ParseDDL_step_def parseColumns_def fun_eq_iff)

lemma parseIndexes_dbType:
  "parseIndexes ddl (s\<lparr>Schema_DBType := d\<rparr>)
     = map_option (\<lambda>s'. s'\<lparr>Schema_DBType := d\<rparr>) (parseIndexes ddl s)"
  by (simp add: parseIndexes_def split: bind_splits)

lemma ParseDDL_dbType:
  "ParseDDL ddl dbType
     = map_option (\<lambda>(s, e). (s\<lparr>Schema_DBType := dbType\<rparr>, e)) (ParseDDL ddl [])"
proof -
  have "\<lparr>Schema_Database = [], Schema_Tables = t, Schema_DBType = dbType\<rparr>
      = \<lparr>Schema_Database = [], Schema_Tables = t, Schema_DBType = []\<rparr>\<lparr>Schema_DBType := dbType\<rparr>" for t
    by simp
  then show ?thesis
    unfolding ParseDDL_def ParseDDL_step_dbType[of dbType]
    by (simp only: parseIndexes_dbType) (simp split: bind_splits)
qed

subsection \<open>The two example tables\<close>

definition ddl_b :: string where
  "ddl_b = ''CREATE TABLE b (x INT, y DECIMAL(10,2) DEFAULT 0.00)''"

definition ddl_t :: string where
  "ddl_t = ''CREATE TABLE t (id INT PRIMARY KEY AUTO_INCREMENT, name VARCHAR(100) NOT NULL)''"

definition plain_column :: "string \<Rightarrow> string \<Rightarrow> Column" where
  "plain_column name ty =
     \<lparr>Column_Name = name, Column_Type = ty, Column_Nullable = True, Column_Default = [],
      Column_Comment = [], Column_IsPK = False, Column_IsFK = False, Column_IsUnique = False,
      Column_IsAutoIncr = False\<rparr>"

definition ddl_b_schema :: "DBType \<Rightarrow> Schema" where
  "ddl_b_schema dbType =
     \<lparr>Schema_Database = [],
      Schema_Tables = Some
        [\<lparr>Table_Name = ''b'',
          Table_Columns = Some [plain_column ''x'' ''INT'', plain_column ''y'' ''DECIMAL''],
          Table_PrimaryKey = None, Table_ForeignKeys = None, Table_Indexes = None\<rparr>],
      Schema_DBType = dbType\<rparr>"

definition ddl_t_schema :: "DBType \<Rightarrow> Schema" where
  "ddl_t_schema dbType =
     \<lparr>Schema_Database = [],
      Schema_Tables = Some
        [\<lparr>Table_Name = ''t'',
          Table_Columns = Some
            [(plain_column ''id'' ''INT'')\<lparr>Column_IsPK := True, Column_IsAutoIncr := True\<rparr>,
             plain_column ''name'' ''VARCHAR''],
          Table_PrimaryKey = None, Table_ForeignKeys = None, Table_Indexes = None\<rparr>],
      Schema_DBType = dbType\<rparr>"

lemma ParseDDL_ddl_b: "ParseDDL ddl_b [] = Some (ddl_b_schema [], None)"
  by code_simp

lemma ParseDDL_ddl_t: "ParseDDL ddl_t [] = Some (ddl_t_schema [], None)"
  by code_simp

text \<open>
  C1, on the code: the table pattern takes the body of the table up to the first closing
  parenthesis, the one of \<open>DECIMAL(10,2)\<close>. The body it hands to \<open>parseColumns\<close> is
  \<open>x INT, y DECIMAL(10,2\<close>; the clause \<open>DEFAULT 0.00\<close> is never seen, and the table \<open>b\<close>
  has the column \<open>y\<close> of type \<open>DECIMAL\<close> with an empty default.
\<close>

theorem paren_truncates_table_body:
  "FindAllStringSubmatch tablePattern ddl_b
     = [[''CREATE TABLE b (x INT, y DECIMAL(10,2)'', ''b'', ''x INT, y DECIMAL(10,2'']]
   \<and> ParseDDL ddl_b dbType = Some (ddl_b_schema dbType, None)
   \<and> map (\<lambda>t. map (\<lambda>c. (Column_Name c, Column_Type c, Column_Default c))
               (elems (Table_Columns t)))
        (elems (Schema_Tables (ddl_b_schema dbType)))
      = [[(''x'', ''INT'', []), (''y'', ''DECIMAL'', [])]]"
proof -
  have "FindAllStringSubmatch tablePattern ddl_b
     = [[''CREATE TABLE b (x INT, y DECIMAL(10,2)'', ''b'', ''x INT, y DECIMAL(10,2'']]"
    by code_simp
  then show ?thesis
    by (simp add: ParseDDL_dbType[of ddl_b dbType] ParseDDL_ddl_b ddl_b_schema_def
        plain_column_def elems_def)
qed

text \<open>
  C2, as stated, fails: the column \<open>id\<close> is nullable in the parsed table, since its clause
  holds no \<open>NOT NULL\<close> (and so is \<open>name\<close>, whose \<open>NOT NULL\<close> lies behind the parenthesis that
  ends the table body).
\<close>

theorem id_column_nullable_counterexample:
  "ParseDDL ddl_t ''mysql'' = Some (ddl_t_schema ''mysql'', None)
   \<and> map (\<lambda>t. map (\<lambda>c. (Column_Name c, Column_Nullable c)) (elems (Table_Columns t)))
        (elems (Schema_Tables (ddl_t_schema ''mysql'')))
      = [[(''id'', True), (''name'', True)]]"
  by (simp add: ParseDDL_dbType[of ddl_t "''mysql''"] ParseDDL_ddl_t ddl_t_schema_def
      plain_column_def elems_def)

text \<open>
  C2, amended. For the DDL text \<open>ddl_t\<close> and every dialect tag, \<open>ParseDDL\<close> returns, with
  the nil error, exactly one table, named \<open>t\<close>, with exactly two columns, \<open>id\<close> and
  \<open>name\<close> in this order; the column \<open>id\<close> is a primary key, auto-incremented and
  nullable.
\<close>

theorem ddl_t_one_table_two_columns:
  "\<exists>schema t c1 c2.
      ParseDDL ddl_t dbType = Some (schema, None)
      \<and> Schema_Tables schema = Some [t] \<and> Table_Name t = ''t''
      \<and> Table_Columns t = Some [c1, c2]
      \<and> Column_Name c1 = ''id'' \<and> Column_IsPK c1 \<and> Column_IsAutoIncr c1 \<and> Column_Nullable c1
      \<and> Column_Name c2 = ''name''"
  by (simp add: ParseDDL_dbType[of ddl_t dbType] ParseDDL_ddl_t ddl_t_schema_def
      plain_column_def)

subsection \<open>Indexes are attached whatever the order of the statements\<close>

text \<open>
  \<open>named n t\<close>: the name of table \<open>t\<close> equals \<open>n\<close> under case folding, the test of
  \<open>parseIndexes\<close>. \<open>has_index n idx ts\<close>: the first table of \<open>ts\<close> with such a name holds
  the index \<open>idx\<close>.
\<close>

definition named :: "string \<Rightarrow> Table \<Rightarrow> bool" where
  "named n t = EqualFold (Table_Name t) n"

definition has_index :: "string \<Rightarrow> Index \<Rightarrow> Table list \<Rightarrow> bool" where
  "has_index n idx ts =
     (case find (named n) ts of None \<Rightarrow> False
      | Some t \<Rightarrow> idx \<in> set (elems (Table_Indexes t)))"

lemma attach_index_names: "map Table_Name (attach_index idx n ts) = map Table_Name ts"
  by (induction ts) auto

lemma has_index_attach_other:
  "has_index n idx ts \<Longrightarrow> has_index n idx (attach_index idx' n' ts)"
  by (induction ts) (auto simp: has_index_def named_def append_slice_def elems_def)

lemma has_index_attach:
  "\<exists>t\<in>set ts. named n t \<Longrightarrow> has_index n idx (attach_index idx n ts)"
  by (induction ts) (auto simp: has_index_def named_def append_slice_def elems_def)

definition index_of_match :: "string list \<Rightarrow> Index option" where
  "index_of_match m =
     map_option (\<lambda>columns.
        \<lparr>Index_Name = m ! 2, Index_Columns = columns,
         Index_IsUnique = (TrimSpace (m ! 1) \<noteq> []), Index_Type = ''BTREE''\<rparr>)
       (foldl index_column_step (Some None) (Split (m ! 4) (CHR '','')))"

lemma parseIndexes_step_attach:
  assumes "length m = 5"
  shows "\<exists>idx. index_of_match m = Some idx
           \<and> parseIndexes_step ts m = Some (attach_index idx (m ! 3) ts)"
proof -
  from index_columns_Some[of None "Split (m ! 4) (CHR '','')"] obtain y where
    "foldl index_column_step (Some None) (Split (m ! 4) (CHR '','')) = Some y" by blast
  with assms show ?thesis
    by (simp add: parseIndexes_step_def index_of_match_def at_Some)
qed

lemma index_loop:
  assumes "fold_opt parseIndexes_step ims ts = Some ts'"
    and "\<And>m. m \<in> set ims \<Longrightarrow> length m = 5"
  shows "map Table_Name ts' = map Table_Name ts
         \<and> (has_index n idx ts \<longrightarrow> has_index n idx ts')
         \<and> (im \<in> set ims \<and> index_of_match im = Some idx \<and> im ! 3 = n
               \<and> (\<exists>t\<in>set ts. named n t) \<longrightarrow> has_index n idx ts')"
  using assms
proof (induction ims arbitrary: ts)
  case Nil
  then show ?case by simp
next
  case (Cons m ims)
  from Cons.prems(2)[of m] have len: "length m = 5" by simp
  from parseIndexes_step_attach[OF len, of ts] obtain i where
    i: "index_of_match m = Some i"
    and step: "parseIndexes_step ts m = Some (attach_index i (m ! 3) ts)" by blast
  let ?ts1 = "attach_index i (m ! 3) ts"
  from Cons.prems(1) step have rest: "fold_opt parseIndexes_step ims ?ts1 = Some ts'"
    by simp
  have IH: "map Table_Name ts' = map Table_Name ?ts1
         \<and> (has_index n idx ?ts1 \<longrightarrow> has_index n idx ts')
         \<and> (im \<in> set ims \<and> index_of_match im = Some idx \<and> im ! 3 = n
               \<and> (\<exists>t\<in>set ?ts1. named n t) \<longrightarrow> has_index n idx ts')"
    by (rule Cons.IH[OF rest]) (simp add: Cons.prems(2))
  have names: "map Table_Name ?ts1 = map Table_Name ts" by (rule attach_index_names)
  have ex: "(\<exists>t\<in>set ?ts1. named n t) = (\<exists>t\<in>set ts. named n t)"
  proof -
    have "(\<exists>t\<in>set xs. named n t) = (\<exists>x\<in>set (map Table_Name xs). EqualFold x n)" for xs
      by (auto simp: named_def)
    then show ?thesis by (simp only: names)
  qed
  show ?case
  proof (intro conjI impI)
    show "map Table_Name ts' = map Table_Name ts" using IH names by simp
  next
    assume "has_index n idx ts"
    then have "has_index n idx ?ts1" by (rule has_index_attach_other)
    with IH show "has_index n idx ts'" by blast
  next
    assume a: "im \<in> set (m # ims) \<and> index_of_match im = Some idx \<and> im ! 3 = n
               \<and> (\<exists>t\<in>set ts. named n t)"
    show "has_index n idx ts'"
    proof (cases "im = m")
      case True
      with a i have "i = idx" "m ! 3 = n" by auto
      with a have "has_index n idx ?ts1" by (auto intro: has_index_attach)
      with IH show ?thesis by blast
    next
      case False
      with a have "im \<in> set ims" by auto
      with a ex IH show ?thesis by blast
    qed
  qed
qed

lemma table_loop:
  assumes "\<And>m. m \<in> set ms \<Longrightarrow> length m = 3"
  shows "\<exists>ts. fold_opt (ParseDDL_step d) ms (Some acc) = Some (Some ts)
           \<and> map Table_Name ts = map Table_Name acc @ map (\<lambda>m. m ! 1) ms"
  using assms
proof (induction ms arbitrary: acc)
  case Nil
  then show ?case by simp
next
  case (Cons m ms)
  from Cons.prems[of m] have len: "length m = 3" by simp
  from parseColumns_Some[of "m ! 2" d] parsePrimaryKey_Some[of "m ! 2"]
    parseForeignKeys_Some[of "m ! 2"]
  obtain a b c where abc: "parseColumns (m ! 2) d = Some a"
    "parsePrimaryKey (m ! 2) = Some b" "parseForeignKeys (m ! 2) = Some c" by blast
  let ?t = "\<lparr>Table_Name = m ! 1, Table_Columns = a, Table_PrimaryKey = b,
           Table_ForeignKeys = c, Table_Indexes = None\<rparr>"
  from len abc have step: "ParseDDL_step d (Some acc) m = Some (Some (acc @ [?t]))"
    by (simp add: ParseDDL_step_def at_Some append_slice_def elems_def)
  from Cons.IH[of "acc @ [?t]"] Cons.prems obtain ts where
    "fold_opt (ParseDDL_step d) ms (Some (acc @ [?t])) = Some (Some ts)"
    "map Table_Name ts = map Table_Name (acc @ [?t]) @ map (\<lambda>m. m ! 1) ms" by auto
  with step show ?case by simp
qed

definition idx_e :: Index where
  "idx_e = \<lparr>Index_Name = ''idx_e'', Index_Columns = Some [''email''],
            Index_IsUnique = True, Index_Type = ''BTREE''\<rparr>"

definition idx_e_match :: "string list" where
  "idx_e_match = [''CREATE UNIQUE INDEX idx_e ON users (email)'', ''UNIQUE '', ''idx_e'',
                  ''users'', ''email'']"

lemma index_of_idx_e_match: "index_of_match idx_e_match = Some idx_e"
  by code_simp

text \<open>
  C8, as stated, fails: with a table \<open>Users\<close> defined before the table \<open>users\<close>, the index
  on \<open>users\<close> is attached to \<open>Users\<close>, the first table whose name matches under case
  folding, and the parsed table \<open>users\<close> has no index.
\<close>

definition ddl_two_tables :: string where
  "ddl_two_tables =
     ''CREATE TABLE Users (a INT); CREATE TABLE users (email INT); ''
     @ ''CREATE UNIQUE INDEX idx_e ON users (email)''"

theorem index_on_other_table_counterexample:
  "map_option
     (\<lambda>(schema, err).
        map (\<lambda>t. (Table_Name t, map Index_Name (elems (Table_Indexes t))))
          (elems (Schema_Tables schema)))
     (ParseDDL ddl_two_tables ''mysql'')
   = Some [(''Users'', [''idx_e'']), (''users'', [])]"
  by code_simp

text \<open>
  C8, amended. For any DDL text and dialect tag: if the index scan finds the statement
  \<open>CREATE UNIQUE INDEX idx_e ON users (email)\<close> (its match is \<open>idx_e_match\<close>) and the table
  scan finds a table whose name is \<open>users\<close> under case folding, then, wherever the two
  statements stand in the text, \<open>ParseDDL\<close> returns a schema in which the first table
  with such a name holds the index \<open>idx_e\<close>: unique, over the column \<open>email\<close>, of type
  \<open>BTREE\<close>.
\<close>

theorem index_attached_in_any_order:
  assumes "idx_e_match \<in> set (FindAllStringSubmatch indexPattern ddl)"
    and "tm \<in> set (FindAllStringSubmatch tablePattern ddl)"
    and "EqualFold (tm ! 1) ''users''"
  shows "\<exists>schema t. ParseDDL ddl dbType = Some (schema, None)
           \<and> find (\<lambda>t. EqualFold (Table_Name t) ''users'') (elems (Schema_Tables schema)) = Some t
           \<and> idx_e \<in> set (elems (Table_Indexes t))"
proof -
  have "\<And>m. m \<in> set (FindAllStringSubmatch tablePattern ddl) \<Longrightarrow> length m = 3"
    by (simp add: FindAll_length ngroups_patterns del: ngroups.simps)
  from table_loop[OF this, of _ dbType "[]"] obtain ts where
    ts: "fold_opt (ParseDDL_step dbType) (FindAllStringSubmatch tablePattern ddl) (Some [])
           = Some (Some ts)"
    and names: "map Table_Name ts = map (\<lambda>m. m ! 1) (FindAllStringSubmatch tablePattern ddl)"
    by auto
  from assms(2) have "tm ! 1 \<in> set (map Table_Name ts)" by (simp add: names)
  with assms(3) have ex: "\<exists>t\<in>set ts. named ''users'' t" by (auto simp: named_def)
  have len5: "\<And>m. m \<in> set (FindAllStringSubmatch indexPattern ddl) \<Longrightarrow> length m = 5"
    by (simp add: FindAll_length ngroups_patterns del: ngroups.simps)
  from fold_opt_Some[of "FindAllStringSubmatch indexPattern ddl" parseIndexes_step ts]
    parseIndexes_step_Some
  obtain ts' where ts': "fold_opt parseIndexes_step (FindAllStringSubmatch indexPattern ddl) ts
      = Some ts'" by blast
  have m3: "idx_e_match ! 3 = ''users''" by (simp add: idx_e_match_def)
  from index_loop[OF ts' len5, of "''users''" idx_e idx_e_match] assms(1) ex m3
    index_of_idx_e_match
  have "has_index ''users'' idx_e ts'" by blast
  then obtain t where "find (named ''users'') ts' = Some t"
    "idx_e \<in> set (elems (Table_Indexes t))"
    by (auto simp: has_index_def split: option.splits)
  moreover have "ParseDDL ddl dbType
      = Some (\<lparr>Schema_Database = [], Schema_Tables = Some ts', Schema_DBType = dbType\<rparr>, None)"
    using ts ts' by (simp add: ParseDDL_def parseIndexes_def elems_def)
  ultimately show ?thesis
    by (auto simp: named_def[abs_def] elems_def)
qed

text \<open>The index statement after the table, and before it.\<close>

definition ddl_index_after :: string where
  "ddl_index_after =
     ''CREATE TABLE users (email VARCHAR(255)); CREATE UNIQUE INDEX idx_e ON users (email)''"

definition ddl_index_before :: string where
  "ddl_index_before =
     ''CREATE UNIQUE INDEX idx_e ON users (email); CREATE TABLE users (email VARCHAR(255))''"

definition users_match :: "string list" where
  "users_match = [''CREATE TABLE users (email VARCHAR(255)'', ''users'', ''email VARCHAR(255'']"

theorem index_attached_in_any_order_witness:
  "idx_e_match \<in> set (FindAllStringSubmatch indexPattern ddl_index_after)
   \<and> users_match \<in> set (FindAllStringSubmatch tablePattern ddl_index_after)
   \<and> idx_e_match \<in> set (FindAllStringSubmatch indexPattern ddl_index_before)
   \<and> users_match \<in> set (FindAllStringSubmatch tablePattern ddl_index_before)
   \<and> EqualFold (users_match ! 1) ''users''
   \<and> (\<exists>schema t. ParseDDL ddl_index_after ''mysql'' = Some (schema, None)
         \<and> find (\<lambda>t. EqualFold (Table_Name t) ''users'') (elems (Schema_Tables schema)) = Some t
         \<and> idx_e \<in> set (elems (Table_Indexes t)))
   \<and> (\<exists>schema t. ParseDDL ddl_index_before ''mysql'' = Some (schema, None)
         \<and> find (\<lambda>t. EqualFold (Table_Name t) ''users'') (elems (Schema_Tables schema)) = Some t
         \<and> idx_e \<in> set (elems (Table_Indexes t)))"
proof -
  have a1: "idx_e_match \<in> set (FindAllStringSubmatch indexPattern ddl_index_after)"
    by code_simp
  have a2: "users_match \<in> set (FindAllStringSubmatch tablePattern ddl_index_after)"
    by code_simp
  have b1: "idx_e_match \<in> set (FindAllStringSubmatch indexPattern ddl_index_before)"
    by code_simp
  have b2: "users_match \<in> set (FindAllStringSubmatch tablePattern ddl_index_before)"
    by code_simp
  have e: "EqualFold (users_match ! 1) ''users''"
    by code_simp
  note after = index_attached_in_any_order[OF a1 a2 e, of "''mysql''"]
  note before = index_attached_in_any_order[OF b1 b2 e, of "''mysql''"]
  from a1 a2 b1 b2 e after before show ?thesis by blast
qed

section \<open>The introspection normalizer: indexes and foreign keys\<close>

text \<open>
  What the database answers to a metadata query: the query fails, or it yields rows, each
  of which is scanned into the variables of the loop or fails to scan.
\<close>

datatype 'row answer = QueryError string | Rows "(string + 'row) list"

text \<open>
  A row of the index query: index name, column name, the uniqueness column (the number
  \<open>NON_UNIQUE\<close> for MySQL, the word \<open>uniqueness\<close> for Oracle) and the index type. The two
  \<open>getIndexes\<close> have the same body but for the test on the uniqueness column, which is the
  parameter \<open>is_unique\<close>.
\<close>

type_synonym 'u index_row = "string \<times> string \<times> 'u \<times> string"

text \<open>The body of the loop over the rows: the map from index names to indexes is updated.\<close>

definition index_put ::
  "('u \<Rightarrow> bool) \<Rightarrow> (string \<rightharpoonup> Index) \<Rightarrow> 'u index_row \<Rightarrow> (string \<rightharpoonup> Index)" where
  "index_put is_unique indexMap row =
     (case row of (indexName, columnName, u, indexType) \<Rightarrow>
        (case indexMap indexName of
           Some idx \<Rightarrow>
             indexMap(indexName \<mapsto>
               idx\<lparr>Index_Columns := append_slice (Index_Columns idx) columnName\<rparr>)
         | None \<Rightarrow>
             indexMap(indexName \<mapsto>
               \<lparr>Index_Name = indexName, Index_Columns = Some [columnName],
                Index_IsUnique = is_unique u, Index_Type = indexType\<rparr>)))"

fun index_loop ::
  "('u \<Rightarrow> bool) \<Rightarrow> (string \<rightharpoonup> Index) \<Rightarrow> (string + 'u index_row) list
     \<Rightarrow> string + (string \<rightharpoonup> Index)" where
  "index_loop is_unique indexMap [] = Inr indexMap"
| "index_loop is_unique indexMap (Inl err # rows) = Inl err"
| "index_loop is_unique indexMap (Inr row # rows) =
     index_loop is_unique (index_put is_unique indexMap row) rows"

text \<open>
  The last loop ranges over the map. Go leaves the iteration order of a map unspecified
  (the runtime varies it from one loop to the next): the order in which the keys are
  visited is the parameter \<open>order\<close>, and any list that holds every key once is possible.
\<close>

definition range_ok :: "string list \<Rightarrow> (string \<rightharpoonup> Index) \<Rightarrow> bool" where
  "range_ok order indexMap = (distinct order \<and> set order = dom indexMap)"

definition collect :: "(string \<rightharpoonup> Index) \<Rightarrow> string list \<Rightarrow> Index slice" where
  "collect indexMap order =
     foldl (\<lambda>indexes k. case indexMap k of None \<Rightarrow> indexes
                          | Some idx \<Rightarrow> append_slice indexes idx) None order"

definition getIndexes_with ::
  "('u \<Rightarrow> bool) \<Rightarrow> string list \<Rightarrow> 'u index_row answer \<Rightarrow> string + Index slice" where
  "getIndexes_with is_unique order ans =
     (case ans of
        QueryError err \<Rightarrow> Inl err
      | Rows rows \<Rightarrow>
          (case index_loop is_unique Map.empty rows of
             Inl err \<Rightarrow> Inl err
           | Inr indexMap \<Rightarrow> Inr (collect indexMap order)))"

definition MySQL_getIndexes :: "string list \<Rightarrow> int index_row answer \<Rightarrow> string + Index slice" where
  "MySQL_getIndexes = getIndexes_with (\<lambda>nonUnique. nonUnique = 0)"

definition Oracle_getIndexes :: "string list \<Rightarrow> string index_row answer \<Rightarrow> string + Index slice" where
  "Oracle_getIndexes = getIndexes_with (\<lambda>uniqueness. uniqueness = ''UNIQUE'')"

text \<open>The map after the loop over rows that all scan.\<close>

definition index_map :: "('u \<Rightarrow> bool) \<Rightarrow> 'u index_row list \<Rightarrow> (string \<rightharpoonup> Index)" where
  "index_map is_unique rows = foldl (index_put is_unique) Map.empty rows"

text \<open>A row of the foreign-key query of MySQL: constraint name, column, referenced table and
  column. Each row is appended as one record.\<close>

type_synonym fk_row = "string \<times> string \<times> string \<times> string"

fun fk_loop :: "FK slice \<Rightarrow> (string + fk_row) list \<Rightarrow> string + FK slice" where
  "fk_loop fks [] = Inr fks"
| "fk_loop fks (Inl err # rows) = Inl err"
| "fk_loop fks (Inr (name, column, refTable, refColumn) # rows) =
     fk_loop (append_slice fks
        \<lparr>FK_Name = name, FK_Column = column, FK_RefTable = refTable,
         FK_RefColumn = refColumn, FK_OnDelete = [], FK_OnUpdate = []\<rparr>) rows"

definition MySQL_getForeignKeys :: "fk_row answer \<Rightarrow> string + FK slice" where
  "MySQL_getForeignKeys ans =
     (case ans of QueryError err \<Rightarrow> Inl err | Rows rows \<Rightarrow> fk_loop None rows)"

subsection \<open>Properties of the fold over the index rows\<close>

text \<open>\<open>rows_of k rows\<close>: the rows of index \<open>k\<close>, in the order supplied. \<open>index_of_rows\<close>: the
  index they give: their columns in that order, uniqueness and type of the first row.\<close>

definition rows_of :: "string \<Rightarrow> 'u index_row list \<Rightarrow> 'u index_row list" where
  "rows_of k rows = filter (\<lambda>row. fst row = k) rows"

definition index_of_rows :: "('u \<Rightarrow> bool) \<Rightarrow> string \<Rightarrow> 'u index_row list \<Rightarrow> Index" where
  "index_of_rows is_unique k rs =
     \<lparr>Index_Name = k, Index_Columns = Some (map (\<lambda>row. fst (snd row)) rs),
      Index_IsUnique = is_unique (fst (snd (snd (hd rs)))),
      Index_Type = snd (snd (snd (hd rs)))\<rparr>"

lemma index_loop_rows:
  "index_loop is_unique m (map Inr rows) = Inr (foldl (index_put is_unique) m rows)"
  by (induction rows arbitrary: m) auto

lemma index_map_char:
  "index_map is_unique rows k =
     (if rows_of k rows = [] then None
      else Some (index_of_rows is_unique k (rows_of k rows)))"
proof (induction rows rule: rev_induct)
  case Nil
  then show ?case by (simp add: index_map_def rows_of_def)
next
  case (snoc row rows)
  obtain n c u t where row: "row = (n, c, u, t)" by (cases row) auto
  have step: "index_map is_unique (rows @ [(n, c, u, t)])
      = index_put is_unique (index_map is_unique rows) (n, c, u, t)"
    by (simp add: index_map_def)
  show ?case
  proof (cases "k = n")
    case False
    with snoc row show ?thesis
      by (simp add: step index_put_def rows_of_def split: option.splits)
  next
    case True
    show ?thesis
    proof (cases "rows_of n rows = []")
      case e: True
      with snoc True row show ?thesis
        by (simp add: step index_put_def rows_of_def index_of_rows_def)
    next
      case ne: False
      with snoc True row show ?thesis
        by (cases "rows_of n rows")
           (simp_all add: step index_put_def rows_of_def index_of_rows_def append_slice_def
              elems_def)
    qed
  qed
qed

lemma dom_index_map: "dom (index_map is_unique rows) = set (map fst rows)"
proof -
  have "(rows_of k rows = []) = (k \<notin> set (map fst rows))" for k
    by (auto simp: rows_of_def filter_empty_conv)
  then show ?thesis
    by (auto simp: dom_def index_map_char)
qed

lemma collect_elems:
  "set order \<subseteq> dom m \<Longrightarrow>
     collect m order = (if order = [] then None else Some (map (\<lambda>k. the (m k)) order))"
proof -
  have "set order \<subseteq> dom m \<Longrightarrow>
     foldl (\<lambda>indexes k. case m k of None \<Rightarrow> indexes | Some idx \<Rightarrow> append_slice indexes idx)
        acc order
     = (if order = [] then acc else Some (elems acc @ map (\<lambda>k. the (m k)) order))" for acc
  proof (induction order arbitrary: acc)
    case Nil
    then show ?case by simp
  next
    case (Cons k order)
    then obtain idx where "m k = Some idx" by auto
    with Cons show ?case by (auto simp: append_slice_def elems_def)
  qed
  from this[of None] show "set order \<subseteq> dom m \<Longrightarrow>
     collect m order = (if order = [] then None else Some (map (\<lambda>k. the (m k)) order))"
    by (simp add: collect_def elems_def)
qed

text \<open>
  C9, as stated, fails on the order of the lists: the rows name index \<open>a\<close> before index
  \<open>b\<close>, and a run in which the map is ranged over from \<open>b\<close> to \<open>a\<close> returns \<open>b\<close> before
  \<open>a\<close>. And foreign-key rows are not folded by constraint name: two rows of one constraint
  give two records.
\<close>

definition two_index_rows :: "int index_row list" where
  "two_index_rows = [(''a'', ''x'', 0, ''BTREE''), (''b'', ''y'', 1, ''BTREE'')]"

definition two_fk_rows :: "fk_row list" where
  "two_fk_rows = [(''fk1'', ''a'', ''t'', ''x''), (''fk1'', ''b'', ''t'', ''y'')]"

theorem index_list_order_counterexample:
  "range_ok [''b'', ''a''] (index_map (\<lambda>nonUnique. nonUnique = 0) two_index_rows)
   \<and> MySQL_getIndexes [''b'', ''a''] (Rows (map Inr two_index_rows))
      = Inr (Some [\<lparr>Index_Name = ''b'', Index_Columns = Some [''y''],
                     Index_IsUnique = False, Index_Type = ''BTREE''\<rparr>,
                    \<lparr>Index_Name = ''a'', Index_Columns = Some [''x''],
                     Index_IsUnique = True, Index_Type = ''BTREE''\<rparr>])
   \<and> MySQL_getForeignKeys (Rows (map Inr two_fk_rows))
      = Inr (Some [\<lparr>FK_Name = ''fk1'', FK_Column = ''a'', FK_RefTable = ''t'',
                     FK_RefColumn = ''x'', FK_OnDelete = [], FK_OnUpdate = []\<rparr>,
                    \<lparr>FK_Name = ''fk1'', FK_Column = ''b'', FK_RefTable = ''t'',
                     FK_RefColumn = ''y'', FK_OnDelete = [], FK_OnUpdate = []\<rparr>])"
proof -
  have "range_ok [''b'', ''a''] (index_map (\<lambda>nonUnique. nonUnique = 0) two_index_rows)"
    by (auto simp: range_ok_def dom_index_map two_index_rows_def)
  moreover have "MySQL_getIndexes [''b'', ''a''] (Rows (map Inr two_index_rows))
      = Inr (Some [\<lparr>Index_Name = ''b'', Index_Columns = Some [''y''],
                     Index_IsUnique = False, Index_Type = ''BTREE''\<rparr>,
                    \<lparr>Index_Name = ''a'', Index_Columns = Some [''x''],
                     Index_IsUnique = True, Index_Type = ''BTREE''\<rparr>])"
    by (simp add: MySQL_getIndexes_def getIndexes_with_def two_index_rows_def index_put_def
        collect_def append_slice_def elems_def)
  moreover have "MySQL_getForeignKeys (Rows (map Inr two_fk_rows))
      = Inr (Some [\<lparr>FK_Name = ''fk1'', FK_Column = ''a'', FK_RefTable = ''t'',
                     FK_RefColumn = ''x'', FK_OnDelete = [], FK_OnUpdate = []\<rparr>,
                    \<lparr>FK_Name = ''fk1'', FK_Column = ''b'', FK_RefTable = ''t'',
                     FK_RefColumn = ''y'', FK_OnDelete = [], FK_OnUpdate = []\<rparr>])"
    by (simp add: MySQL_getForeignKeys_def two_fk_rows_def append_slice_def elems_def)
  ultimately show ?thesis by blast
qed

text \<open>
  C9, amended. For every sequence of index rows that all scan, and every order in which
  the final loop can range over the map (\<open>range_ok\<close>): \<open>getIndexes\<close> (of MySQL and of
  Oracle, \<open>getIndexes_with\<close>) returns one index for each distinct index name of the rows,
  in the order of the range loop, nil when there is no row; the columns of each index are
  the columns of its rows in the order the rows were supplied, its uniqueness and type
  those of its first row. The foreign-key rows of MySQL give one record for each row, in
  the order of the rows, nil when there is no row.
\<close>

theorem index_columns_keep_row_order:
  assumes "range_ok order (index_map is_unique rows)"
  shows "getIndexes_with is_unique order (Rows (map Inr rows))
           = Inr (if order = [] then None
                  else Some (map (\<lambda>k. index_of_rows is_unique k (rows_of k rows)) order))
         \<and> distinct order \<and> set order = set (map fst rows)
         \<and> MySQL_getForeignKeys (Rows (map Inr fkrows))
           = Inr (if fkrows = [] then None
                  else Some (map (\<lambda>(name, column, refTable, refColumn).
                     \<lparr>FK_Name = name, FK_Column = column, FK_RefTable = refTable,
                      FK_RefColumn = refColumn, FK_OnDelete = [], FK_OnUpdate = []\<rparr>) fkrows))"
proof -
  let ?m = "index_map is_unique rows"
  from assms have d: "distinct order" and s: "set order = dom ?m"
    by (simp_all add: range_ok_def)
  have "map (\<lambda>k. the (?m k)) order
      = map (\<lambda>k. index_of_rows is_unique k (rows_of k rows)) order"
  proof (rule map_cong[OF refl])
    fix k assume "k \<in> set order"
    with s have "k \<in> dom ?m" by simp
    then show "the (?m k) = index_of_rows is_unique k (rows_of k rows)"
      by (auto simp: index_map_char split: if_splits)
  qed
  with s have 1: "getIndexes_with is_unique order (Rows (map Inr rows))
           = Inr (if order = [] then None
                  else Some (map (\<lambda>k. index_of_rows is_unique k (rows_of k rows)) order))"
    by (simp add: getIndexes_with_def index_loop_rows index_map_def[symmetric] collect_elems)
  have "fk_loop acc (map Inr fkrows)
        = Inr (if fkrows = [] then acc
               else Some (elems acc @ map (\<lambda>(name, column, refTable, refColumn).
                     \<lparr>FK_Name = name, FK_Column = column, FK_RefTable = refTable,
                      FK_RefColumn = refColumn, FK_OnDelete = [], FK_OnUpdate = []\<rparr>) fkrows))"
    for acc
    by (induction fkrows arbitrary: acc) (auto simp: append_slice_def elems_def)
  from this[of None] have 2: "MySQL_getForeignKeys (Rows (map Inr fkrows))
           = Inr (if fkrows = [] then None
                  else Some (map (\<lambda>(name, column, refTable, refColumn).
                     \<lparr>FK_Name = name, FK_Column = column, FK_RefTable = refTable,
                      FK_RefColumn = refColumn, FK_OnDelete = [], FK_OnUpdate = []\<rparr>) fkrows))"
    by (simp add: MySQL_getForeignKeys_def elems_def)
  from 1 2 d s show ?thesis by (simp add: dom_index_map)
qed

definition three_index_rows :: "int index_row list" where
  "three_index_rows =
     [(''PRIMARY'', ''id'', 0, ''BTREE''), (''idx_name'', ''last'', 1, ''BTREE''),
      (''idx_name'', ''first'', 1, ''BTREE'')]"

theorem index_columns_keep_row_order_witness:
  "range_ok [''idx_name'', ''PRIMARY''] (index_map (\<lambda>nonUnique. nonUnique = 0) three_index_rows)
   \<and> MySQL_getIndexes [''idx_name'', ''PRIMARY''] (Rows (map Inr three_index_rows))
      = Inr (Some [\<lparr>Index_Name = ''idx_name'', Index_Columns = Some [''last'', ''first''],
                     Index_IsUnique = False, Index_Type = ''BTREE''\<rparr>,
                    \<lparr>Index_Name = ''PRIMARY'', Index_Columns = Some [''id''],
                     Index_IsUnique = True, Index_Type = ''BTREE''\<rparr>])"
proof -
  have h: "range_ok [''idx_name'', ''PRIMARY'']
      (index_map (\<lambda>nonUnique. nonUnique = 0) three_index_rows)"
    by (auto simp: range_ok_def dom_index_map three_index_rows_def)
  from index_columns_keep_row_order[OF h, of "[]"]
  have "MySQL_getIndexes [''idx_name'', ''PRIMARY''] (Rows (map Inr three_index_rows))
      = Inr (Some (map (\<lambda>k. index_of_rows (\<lambda>nonUnique. nonUnique = 0) k
                             (rows_of k three_index_rows)) [''idx_name'', ''PRIMARY'']))"
    by (simp add: MySQL_getIndexes_def)
  with h show ?thesis
    by (simp add: index_of_rows_def rows_of_def three_index_rows_def)
qed

section \<open>The JSON form of a schema\<close>

text \<open>
  \<open>ParseJSON\<close> is \<open>json.Unmarshal\<close> into a \<open>Schema\<close>, \<open>ToJSON\<close> is \<open>json.MarshalIndent\<close> of
  one. What the repository decides is the shape of the document: the member names of the
  struct tags, their order, \<open>omitempty\<close>, nil slices. The model is at this level: a
  document is a JSON value, the members of an object in the order of the text. The text
  layer of \<open>encoding/json\<close> (scanner, escapes, indentation) is not modelled; two texts that
  are equal have the same value, so documents that differ as values differ as texts.
\<close>

datatype json = JNull | JBool bool | JNumber string | JString string
  | JArray "json list" | JObject "(string \<times> json) list"

text \<open>The bytes given to \<open>ParseJSON\<close>: not a JSON text, or the text of a value.\<close>

datatype document = Malformed | Doc json

datatype json_error = SyntaxError | UnmarshalTypeError

subsection \<open>Marshal\<close>

text \<open>
  A Go string is written as a JSON string with every byte that is not part of a valid
  UTF-8 sequence replaced by U+FFFD: \<open>rune_len\<close> is the length of the valid sequence at
  the head of a string (0 when there is none), after \<open>utf8.DecodeRuneInString\<close>.
\<close>

definition in_range :: "char \<Rightarrow> nat \<Rightarrow> nat \<Rightarrow> bool" where
  "in_range b lo hi = (lo \<le> (of_char b :: nat) \<and> (of_char b :: nat) \<le> hi)"

fun rune_len :: "string \<Rightarrow> nat" where
  "rune_len [] = 0"
| "rune_len (b0 # rest) =
     (if in_range b0 0x00 0x7F then 1
      else if in_range b0 0xC2 0xDF then
        (case rest of b1 # _ \<Rightarrow> if in_range b1 0x80 0xBF then 2 else 0 | _ \<Rightarrow> 0)
      else if in_range b0 0xE0 0xEF then
        (case rest of
           b1 # b2 # _ \<Rightarrow>
             if in_range b1 (if b0 = CHR 0xE0 then 0xA0 else 0x80)
                            (if b0 = CHR 0xED then 0x9F else 0xBF)
                \<and> in_range b2 0x80 0xBF
             then 3 else 0
         | _ \<Rightarrow> 0)
      else if in_range b0 0xF0 0xF4 then
        (case rest of
           b1 # b2 # b3 # _ \<Rightarrow>
             if in_range b1 (if b0 = CHR 0xF0 then 0x90 else 0x80)
                            (if b0 = CHR 0xF4 then 0x8F else 0xBF)
                \<and> in_range b2 0x80 0xBF \<and> in_range b3 0x80 0xBF
             then 4 else 0
         | _ \<Rightarrow> 0)
      else 0)"

lemma rune_len_le: "rune_len s \<le> length s"
  by (cases s) (auto split: list.splits)

definition replacement :: string where \<comment> \<open>U+FFFD\<close>
  "replacement = [CHR 0xEF, CHR 0xBF, CHR 0xBD]"

function coerce_utf8 :: "string \<Rightarrow> string" where
  "coerce_utf8 s =
     (if s = [] then []
      else if rune_len s = 0 then replacement @ coerce_utf8 (drop 1 s)
      else take (rune_len s) s @ coerce_utf8 (drop (rune_len s) s))"
  by pat_completeness auto
termination
  using rune_len_le by (relation "measure length") (auto simp: Suc_le_eq intro: diff_less)

declare coerce_utf8.simps [simp del]

definition valid_utf8 :: "string \<Rightarrow> bool" where
  "valid_utf8 s = (coerce_utf8 s = s)"

text \<open>The value written for each type: the members in the order of the struct fields, a
  nil slice as \<open>null\<close>, a member tagged \<open>omitempty\<close> left out when its string is empty.\<close>

definition enc_string :: "string \<Rightarrow> json" where
  "enc_string s = JString (coerce_utf8 s)"

definition enc_slice :: "('a \<Rightarrow> json) \<Rightarrow> 'a slice \<Rightarrow> json" where
  "enc_slice enc xs = (case xs of None \<Rightarrow> JNull | Some l \<Rightarrow> JArray (map enc l))"

definition omitempty :: "string \<Rightarrow> string \<Rightarrow> (string \<times> json) list" where
  "omitempty name s = (if s = [] then [] else [(name, enc_string s)])"

definition enc_column :: "Column \<Rightarrow> json" where
  "enc_column c =
     JObject ([(''name'', enc_string (Column_Name c)), (''type'', enc_string (Column_Type c)),
               (''nullable'', JBool (Column_Nullable c))]
              @ omitempty ''default'' (Column_Default c)
              @ omitempty ''comment'' (Column_Comment c)
              @ [(''is_pk'', JBool (Column_IsPK c)), (''is_fk'', JBool (Column_IsFK c)),
                 (''is_unique'', JBool (Column_IsUnique c)),
                 (''is_auto_incr'', JBool (Column_IsAutoIncr c))])"

definition enc_fk :: "FK \<Rightarrow> json" where
  "enc_fk f =
     JObject ([(''name'', enc_string (FK_Name f)), (''column'', enc_string (FK_Column f)),
               (''ref_table'', enc_string (FK_RefTable f)),
               (''ref_column'', enc_string (FK_RefColumn f))]
              @ omitempty ''on_delete'' (FK_OnDelete f)
              @ omitempty ''on_update'' (FK_OnUpdate f))"

definition enc_index :: "Index \<Rightarrow> json" where
  "enc_index i =
     JObject [(''name'', enc_string (Index_Name i)),
              (''columns'', enc_slice enc_string (Index_Columns i)),
              (''is_unique'', JBool (Index_IsUnique i)),
              (''type'', enc_string (Index_Type i))]"

definition enc_table :: "Table \<Rightarrow> json" where
  "enc_table t =
     JObject [(''name'', enc_string (Table_Name t)),
              (''columns'', enc_slice enc_column (Table_Columns t)),
              (''primary_key'', enc_slice enc_string (Table_PrimaryKey t)),
              (''foreign_keys'', enc_slice enc_fk (Table_ForeignKeys t)),
              (''indexes'', enc_slice enc_index (Table_Indexes t))]"

definition enc_schema :: "Schema \<Rightarrow> json" where
  "enc_schema s =
     JObject [(''database'', enc_string (Schema_Database s)),
              (''tables'', enc_slice enc_table (Schema_Tables s)),
              (''db_type'', enc_string (Schema_DBType s))]"

definition ToJSON :: "Schema \<Rightarrow> json_error + json" where
  "ToJSON schema = Inr (enc_schema schema)"

subsection \<open>Unmarshal\<close>

text \<open>
  \<open>Unmarshal\<close> decodes into an existing value: a member is looked up among the field
  names, exactly or else under case folding, and an unknown member is skipped; \<open>null\<close>
  leaves a string, a boolean or a struct as it is and makes a slice nil; an array gives
  a new slice length, its elements decoded into the elements the slice had or into zero
  values (what Go does with earlier elements beyond the length of a slice that was
  decoded more than twice is not modelled). A value of the wrong kind is skipped and
  makes the call return an \<open>UnmarshalTypeError\<close> in the end: the boolean of a result is
  that error flag.
\<close>

definition find_field :: "string list \<Rightarrow> string \<Rightarrow> string option" where
  "find_field names key =
     (if key \<in> set names then Some key else find (\<lambda>n. EqualFold n key) names)"

definition dec_string :: "json \<Rightarrow> string \<Rightarrow> string \<times> bool" where
  "dec_string j cur = (case j of JString s \<Rightarrow> (s, False) | JNull \<Rightarrow> (cur, False) | _ \<Rightarrow> (cur, True))"

definition dec_bool :: "json \<Rightarrow> bool \<Rightarrow> bool \<times> bool" where
  "dec_bool j cur = (case j of JBool b \<Rightarrow> (b, False) | JNull \<Rightarrow> (cur, False) | _ \<Rightarrow> (cur, True))"

definition dec_slice ::
  "(json \<Rightarrow> 'a \<Rightarrow> 'a \<times> bool) \<Rightarrow> 'a \<Rightarrow> json \<Rightarrow> 'a slice \<Rightarrow> 'a slice \<times> bool" where
  "dec_slice dec zero j cur =
     (case j of
        JNull \<Rightarrow> (None, False)
      | JArray js \<Rightarrow>
          (let rs = map (\<lambda>(i, e). dec e (if i < length (elems cur) then elems cur ! i else zero))
                      (enumerate 0 js)
           in (Some (map fst rs), list_ex snd rs))
      | _ \<Rightarrow> (cur, True))"

definition dec_struct ::
  "string list \<Rightarrow> (string \<Rightarrow> json \<Rightarrow> 'a \<Rightarrow> 'a \<times> bool) \<Rightarrow> json \<Rightarrow> 'a \<Rightarrow> 'a \<times> bool" where
  "dec_struct names set_field j cur =
     (case j of
        JNull \<Rightarrow> (cur, False)
      | JObject members \<Rightarrow>
          foldl (\<lambda>(v, err) (key, jv).
                   case find_field names key of
                     None \<Rightarrow> (v, err)
                   | Some n \<Rightarrow> (case set_field n jv v of (v', err') \<Rightarrow> (v', err \<or> err')))
                (cur, False) members
      | _ \<Rightarrow> (cur, True))"

definition with_field :: "('b \<Rightarrow> 'a) \<Rightarrow> 'b \<times> bool \<Rightarrow> 'a \<times> bool" where
  "with_field upd r = (upd (fst r), snd r)"

definition column_set :: "string \<Rightarrow> json \<Rightarrow> Column \<Rightarrow> Column \<times> bool" where
  "column_set n j c =
     (if n = ''name'' then with_field (\<lambda>v. c\<lparr>Column_Name := v\<rparr>) (dec_string j (Column_Name c))
      else if n = ''type'' then with_field (\<lambda>v. c\<lparr>Column_Type := v\<rparr>) (dec_string j (Column_Type c))
      else if n = ''nullable'' then
        with_field (\<lambda>v. c\<lparr>Column_Nullable := v\<rparr>) (dec_bool j (Column_Nullable c))
      else if n = ''default'' then
        with_field (\<lambda>v. c\<lparr>Column_Default := v\<rparr>) (dec_string j (Column_Default c))
      else if n = ''comment'' then
        with_field (\<lambda>v. c\<lparr>Column_Comment := v\<rparr>) (dec_string j (Column_Comment c))
      else if n = ''is_pk'' then with_field (\<lambda>v. c\<lparr>Column_IsPK := v\<rparr>) (dec_bool j (Column_IsPK c))
      else if n = ''is_fk'' then with_field (\<lambda>v. c\<lparr>Column_IsFK := v\<rparr>) (dec_bool j (Column_IsFK c))
      else if n = ''is_unique'' then
        with_field (\<lambda>v. c\<lparr>Column_IsUnique := v\<rparr>) (dec_bool j (Column_IsUnique c))
      else with_field (\<lambda>v. c\<lparr>Column_IsAutoIncr := v\<rparr>) (dec_bool j (Column_IsAutoIncr c)))"

definition column_fields :: "string list" where
  "column_fields = [''name'', ''type'', ''nullable'', ''default'', ''comment'', ''is_pk'',
                    ''is_fk'', ''is_unique'', ''is_auto_incr'']"

definition zero_column :: Column where
  "zero_column = \<lparr>Column_Name = [], Column_Type = [], Column_Nullable = False,
     Column_Default = [], Column_Comment = [], Column_IsPK = False, Column_IsFK = False,
     Column_IsUnique = False, Column_IsAutoIncr = False\<rparr>"

definition dec_column :: "json \<Rightarrow> Column \<Rightarrow> Column \<times> bool" where
  "dec_column = dec_struct column_fields column_set"

definition valid_column :: "Column \<Rightarrow> bool" where
  "valid_column c = (valid_utf8 (Column_Name c) \<and> valid_utf8 (Column_Type c)
     \<and> valid_utf8 (Column_Default c) \<and> valid_utf8 (Column_Comment c))"

definition fk_set :: "string \<Rightarrow> json \<Rightarrow> FK \<Rightarrow> FK \<times> bool" where
  "fk_set n j f =
     (if n = ''name'' then with_field (\<lambda>v. f\<lparr>FK_Name := v\<rparr>) (dec_string j (FK_Name f))
      else if n = ''column'' then with_field (\<lambda>v. f\<lparr>FK_Column := v\<rparr>) (dec_string j (FK_Column f))
      else if n = ''ref_table'' then
        with_field (\<lambda>v. f\<lparr>FK_RefTable := v\<rparr>) (dec_string j (FK_RefTable f))
      else if n = ''ref_column'' then
        with_field (\<lambda>v. f\<lparr>FK_RefColumn := v\<rparr>) (dec_string j (FK_RefColumn f))
      else if n = ''on_delete'' then
        with_field (\<lambda>v. f\<lparr>FK_OnDelete := v\<rparr>) (dec_string j (FK_OnDelete f))
      else with_field (\<lambda>v. f\<lparr>FK_OnUpdate := v\<rparr>) (dec_string j (FK_OnUpdate f)))"

definition fk_fields :: "string list" where
  "fk_fields = [''name'', ''column'', ''ref_table'', ''ref_column'', ''on_delete'', ''on_update'']"

definition zero_fk :: FK where
  "zero_fk = \<lparr>FK_Name = [], FK_Column = [], FK_RefTable = [], FK_RefColumn = [],
     FK_OnDelete = [], FK_OnUpdate = []\<rparr>"

definition dec_fk :: "json \<Rightarrow> FK \<Rightarrow> FK \<times> bool" where
  "dec_fk = dec_struct fk_fields fk_set"

definition index_set :: "string \<Rightarrow> json \<Rightarrow> Index \<Rightarrow> Index \<times> bool" where
  "index_set n j i =
     (if n = ''name'' then with_field (\<lambda>v. i\<lparr>Index_Name := v\<rparr>) (dec_string j (Index_Name i))
      else if n = ''columns'' then
        with_field (\<lambda>v. i\<lparr>Index_Columns := v\<rparr>) (dec_slice dec_string [] j (Index_Columns i))
      else if n = ''is_unique'' then
        with_field (\<lambda>v. i\<lparr>Index_IsUnique := v\<rparr>) (dec_bool j (Index_IsUnique i))
      else with_field (\<lambda>v. i\<lparr>Index_Type := v\<rparr>) (dec_string j (Index_Type i)))"

definition index_fields :: "string list" where
  "index_fields = [''name'', ''columns'', ''is_unique'', ''type'']"

definition zero_index :: Index where
  "zero_index = \<lparr>Index_Name = [], Index_Columns = None, Index_IsUnique = False,
     Index_Type = []\<rparr>"

definition dec_index :: "json \<Rightarrow> Index \<Rightarrow> Index \<times> bool" where
  "dec_index = dec_struct index_fields index_set"

definition table_set :: "string \<Rightarrow> json \<Rightarrow> Table \<Rightarrow> Table \<times> bool" where
  "table_set n j t =
     (if n = ''name'' then with_field (\<lambda>v. t\<lparr>Table_Name := v\<rparr>) (dec_string j (Table_Name t))
      else if n = ''columns'' then
        with_field (\<lambda>v. t\<lparr>Table_Columns := v\<rparr>)
          (dec_slice dec_column zero_column j (Table_Columns t))
      else if n = ''primary_key'' then
        with_field (\<lambda>v. t\<lparr>Table_PrimaryKey := v\<rparr>)
          (dec_slice dec_string [] j (Table_PrimaryKey t))
      else if n = ''foreign_keys'' then
        with_field (\<lambda>v. t\<lparr>Table_ForeignKeys := v\<rparr>)
          (dec_slice dec_fk zero_fk j (Table_ForeignKeys t))
      else with_field (\<lambda>v. t\<lparr>Table_Indexes := v\<rparr>)
          (dec_slice dec_index zero_index j (Table_Indexes t)))"

definition table_fields :: "string list" where
  "table_fields = [''name'', ''columns'', ''primary_key'', ''foreign_keys'', ''indexes'']"

definition zero_table :: Table where
  "zero_table = \<lparr>Table_Name = [], Table_Columns = None, Table_PrimaryKey = None,
     Table_ForeignKeys = None, Table_Indexes = None\<rparr>"

definition dec_table :: "json \<Rightarrow> Table \<Rightarrow> Table \<times> bool" where
  "dec_table = dec_struct table_fields table_set"

definition schema_set :: "string \<Rightarrow> json \<Rightarrow> Schema \<Rightarrow> Schema \<times> bool" where
  "schema_set n j s =
     (if n = ''database'' then
        with_field (\<lambda>v. s\<lparr>Schema_Database := v\<rparr>) (dec_string j (Schema_Database s))
      else if n = ''tables'' then
        with_field (\<lambda>v. s\<lparr>Schema_Tables := v\<rparr>)
          (dec_slice dec_table zero_table j (Schema_Tables s))
      else with_field (\<lambda>v. s\<lparr>Schema_DBType := v\<rparr>) (dec_string j (Schema_DBType s)))"

definition schema_fields :: "string list" where
  "schema_fields = [''database'', ''tables'', ''db_type'']"

definition zero_schema :: Schema where
  "zero_schema = \<lparr>Schema_Database = [], Schema_Tables = None, Schema_DBType = []\<rparr>"

definition dec_schema :: "json \<Rightarrow> Schema \<Rightarrow> Schema \<times> bool" where
  "dec_schema = dec_struct schema_fields schema_set"

definition ParseJSON :: "document \<Rightarrow> json_error + Schema" where
  "ParseJSON data =
     (case data of
        Malformed \<Rightarrow> Inl SyntaxError
      | Doc j \<Rightarrow>
          (case dec_schema j zero_schema of
             (schema, True) \<Rightarrow> Inl UnmarshalTypeError
           | (schema, False) \<Rightarrow> Inr schema))"

subsection \<open>Round trips\<close>

text \<open>A schema all of whose strings are valid UTF-8.\<close>

definition valid_strings :: "string slice \<Rightarrow> bool" where
  "valid_strings xs = list_all valid_utf8 (elems xs)"

definition valid_fk :: "FK \<Rightarrow> bool" where
  "valid_fk f = (valid_utf8 (FK_Name f) \<and> valid_utf8 (FK_Column f)
     \<and> valid_utf8 (FK_RefTable f) \<and> valid_utf8 (FK_RefColumn f)
     \<and> valid_utf8 (FK_OnDelete f) \<and> valid_utf8 (FK_OnUpdate f))"

definition valid_index :: "Index \<Rightarrow> bool" where
  "valid_index i = (valid_utf8 (Index_Name i) \<and> valid_strings (Index_Columns i)
     \<and> valid_utf8 (Index_Type i))"

definition valid_table :: "Table \<Rightarrow> bool" where
  "valid_table t = (valid_utf8 (Table_Name t)
     \<and> list_all valid_column (elems (Table_Columns t))
     \<and> valid_strings (Table_PrimaryKey t)
     \<and> list_all valid_fk (elems (Table_ForeignKeys t))
     \<and> list_all valid_index (elems (Table_Indexes t)))"

definition valid_schema :: "Schema \<Rightarrow> bool" where
  "valid_schema s = (valid_utf8 (Schema_Database s)
     \<and> list_all valid_table (elems (Schema_Tables s))
     \<and> valid_utf8 (Schema_DBType s))"

lemma dec_column_enc:
  "valid_column c \<Longrightarrow> dec_column (enc_column c) zero_column = (c, False)"
  by (simp add: dec_column_def enc_column_def dec_struct_def column_fields_def find_field_def
      column_set_def with_field_def dec_string_def dec_bool_def enc_string_def omitempty_def
      valid_column_def valid_utf8_def zero_column_def)


lemma enumerate_map_fst:
  assumes "\<And>x. x \<in> set xs \<Longrightarrow> dec (enc x) zero = (x, False)"
  shows "map (\<lambda>(i, e). dec e zero) (enumerate n (map enc xs)) = map (\<lambda>x. (x, False)) xs"
  using assms by (induction xs arbitrary: n) auto

lemma dec_slice_enc:
  assumes "\<And>x. x \<in> set (elems xs) \<Longrightarrow> dec (enc x) zero = (x, False)"
  shows "dec_slice dec zero (enc_slice enc xs) None = (xs, False)"
proof (cases xs)
  case None
  then show ?thesis by (simp add: dec_slice_def enc_slice_def)
next
  case (Some l)
  with assms have "\<And>x. x \<in> set l \<Longrightarrow> dec (enc x) zero = (x, False)"
    by (simp add: elems_def)
  from enumerate_map_fst[of l dec enc zero 0, OF this] Some show ?thesis
    by (simp add: dec_slice_def enc_slice_def elems_def comp_def list_ex_iff)
qed

lemma dec_strings_enc:
  "valid_strings xs \<Longrightarrow> dec_slice dec_string [] (enc_slice enc_string xs) None = (xs, False)"
  by (rule dec_slice_enc)
     (simp add: valid_strings_def list_all_iff dec_string_def enc_string_def valid_utf8_def)

lemma dec_fk_enc: "valid_fk f \<Longrightarrow> dec_fk (enc_fk f) zero_fk = (f, False)"
  by (simp add: dec_fk_def enc_fk_def dec_struct_def fk_fields_def find_field_def
      fk_set_def with_field_def dec_string_def enc_string_def omitempty_def
      valid_fk_def valid_utf8_def zero_fk_def)

lemma dec_index_enc: "valid_index i \<Longrightarrow> dec_index (enc_index i) zero_index = (i, False)"
  by (simp add: dec_index_def enc_index_def dec_struct_def index_fields_def find_field_def
      index_set_def with_field_def dec_string_def dec_bool_def enc_string_def
      valid_index_def valid_utf8_def zero_index_def dec_strings_enc)

lemma dec_table_enc:
  assumes "valid_table t"
  shows "dec_table (enc_table t) zero_table = (t, False)"
proof -
  from assms have
    c: "dec_slice dec_column zero_column (enc_slice enc_column (Table_Columns t)) None
          = (Table_Columns t, False)"
    and f: "dec_slice dec_fk zero_fk (enc_slice enc_fk (Table_ForeignKeys t)) None
          = (Table_ForeignKeys t, False)"
    and i: "dec_slice dec_index zero_index (enc_slice enc_index (Table_Indexes t)) None
          = (Table_Indexes t, False)"
    and p: "dec_slice dec_string [] (enc_slice enc_string (Table_PrimaryKey t)) None
          = (Table_PrimaryKey t, False)"
    and n: "coerce_utf8 (Table_Name t) = Table_Name t"
    by (auto simp: valid_table_def list_all_iff valid_utf8_def
        intro!: dec_slice_enc dec_column_enc dec_fk_enc dec_index_enc dec_strings_enc)
  then show ?thesis
    by (simp add: dec_table_def enc_table_def dec_struct_def table_fields_def find_field_def
        table_set_def with_field_def dec_string_def enc_string_def zero_table_def)
qed

lemma dec_schema_enc:
  assumes "valid_schema s"
  shows "dec_schema (enc_schema s) zero_schema = (s, False)"
proof -
  from assms have
    t: "dec_slice dec_table zero_table (enc_slice enc_table (Schema_Tables s)) None
          = (Schema_Tables s, False)"
    and n: "coerce_utf8 (Schema_Database s) = Schema_Database s"
       "coerce_utf8 (Schema_DBType s) = Schema_DBType s"
    by (auto simp: valid_schema_def list_all_iff valid_utf8_def
        intro!: dec_slice_enc dec_table_enc)
  then show ?thesis
    by (simp add: dec_schema_def enc_schema_def dec_struct_def schema_fields_def find_field_def
        schema_set_def with_field_def dec_string_def enc_string_def zero_schema_def)
qed

definition round_trip :: "json \<Rightarrow> json_error + json" where
  "round_trip x = (case ParseJSON (Doc x) of Inl err \<Rightarrow> Inl err | Inr schema \<Rightarrow> ToJSON schema)"

text \<open>
  C4, as stated, fails: a document that gives a column the member \<open>default\<close> with the
  empty string is a valid schema document; it parses with no error, and the document
  written for the result has no member \<open>default\<close>.
\<close>

definition column_doc :: "(string \<times> json) list \<Rightarrow> json" where
  "column_doc extra =
     JObject ([(''name'', JString ''id''), (''type'', JString ''INT''),
               (''nullable'', JBool False)] @ extra
              @ [(''is_pk'', JBool True), (''is_fk'', JBool False),
                 (''is_unique'', JBool False), (''is_auto_incr'', JBool True)])"

definition schema_doc :: "json \<Rightarrow> json" where
  "schema_doc column =
     JObject [(''database'', JString ''shop''),
              (''tables'', JArray
                 [JObject [(''name'', JString ''users''), (''columns'', JArray [column]),
                           (''primary_key'', JArray [JString ''id'']),
                           (''foreign_keys'', JNull), (''indexes'', JArray [])]]),
              (''db_type'', JString ''mysql'')]"

theorem json_round_trip_counterexample:
  "round_trip (schema_doc (column_doc [(''default'', JString [])]))
     = Inr (schema_doc (column_doc []))
   \<and> schema_doc (column_doc []) \<noteq> schema_doc (column_doc [(''default'', JString [])])"
  by code_simp

text \<open>
  C4, amended. For every schema whose strings are valid UTF-8: \<open>ToJSON\<close> returns a
  document with no error; \<open>ParseJSON\<close> of that document returns the schema, with no
  error; and serializing the result of parsing that document gives the document back.
  The round trip of the claim holds for the documents that \<open>ToJSON\<close> writes.
\<close>

theorem json_round_trip_of_schema:
  assumes "valid_schema s"
  shows "ToJSON s = Inr (enc_schema s)
         \<and> ParseJSON (Doc (enc_schema s)) = Inr s
         \<and> round_trip (enc_schema s) = Inr (enc_schema s)"
  using dec_schema_enc[OF assms]
  by (simp add: ToJSON_def ParseJSON_def round_trip_def)

definition example_schema :: Schema where
  "example_schema =
     \<lparr>Schema_Database = ''shop'',
      Schema_Tables = Some
        [\<lparr>Table_Name = ''users'',
          Table_Columns = Some
            [(plain_column ''id'' ''INT'')\<lparr>Column_Nullable := False, Column_IsPK := True\<rparr>,
             (plain_column ''name'' ''VARCHAR(100)'')\<lparr>Column_Default := ''x'',
                Column_Comment := [CHR 0xEC, CHR 0x84, CHR 0xA4]\<rparr>],
          Table_PrimaryKey = Some [''id''],
          Table_ForeignKeys = Some
            [\<lparr>FK_Name = ''fk_a'', FK_Column = ''a'', FK_RefTable = ''t'', FK_RefColumn = ''id'',
              FK_OnDelete = [], FK_OnUpdate = ''CASCADE''\<rparr>],
          Table_Indexes = Some
            [\<lparr>Index_Name = ''idx_e'', Index_Columns = Some [''email''],
              Index_IsUnique = True, Index_Type = ''BTREE''\<rparr>]\<rparr>,
         \<lparr>Table_Name = ''empty'', Table_Columns = Some [], Table_PrimaryKey = None,
          Table_ForeignKeys = None, Table_Indexes = None\<rparr>],
      Schema_DBType = ''mysql''\<rparr>"

theorem json_round_trip_of_schema_witness:
  "valid_schema example_schema
   \<and> ParseJSON (Doc (enc_schema example_schema)) = Inr example_schema
   \<and> round_trip (enc_schema example_schema) = Inr (enc_schema example_schema)"
proof -
  have h: "valid_schema example_schema"
    by code_simp
  from json_round_trip_of_schema[OF h] h show ?thesis by simp
qed

end
